theory Spec2Isabelle
  imports Complex_Main "HOL-Library.AList" "HOL-Library.Char_ord" "HOL-Library.List_Lexorder"
    "HOL-Library.Multiset"
begin

section \<open>Python values and exceptions\<close>

text \<open>
  The values that \<^verbatim>\<open>json.load\<close> and \<^verbatim>\<open>response.json()\<close> produce: \<^verbatim>\<open>None\<close>, booleans,
  integers, floats, strings, lists and dictionaries. A dictionary is an association list
  (looked up with \<open>map_of\<close>); a float is represented by the rational it denotes.
\<close>

datatype pyval =
    PNone
  | PBool bool
  | PInt int
  | PFloat rat
  | PStr string
  | PList "pyval list"
  | PDict "(string \<times> pyval) list"

text \<open>Python's truth value of an object, as tested by \<^verbatim>\<open>if cached_data:\<close>.\<close>

fun truthy :: "pyval \<Rightarrow> bool" where
  "truthy PNone = False"
| "truthy (PBool b) = b"
| "truthy (PInt i) = (i \<noteq> 0)"
| "truthy (PFloat r) = (r \<noteq> 0)"
| "truthy (PStr s) = (s \<noteq> [])"
| "truthy (PList xs) = (xs \<noteq> [])"
| "truthy (PDict kvs) = (kvs \<noteq> [])"

datatype py_error = KeyError | TypeError | AttributeError | ValueError | IntegrityError

section \<open>The API client (src/ingestion/api_client.py)\<close>

text \<open>
  The client's configuration. The rate limiter only sleeps and moves
  \<^verbatim>\<open>last_request_time\<close>; the clock is not part of the modelled state, so
  \<^verbatim>\<open>_rate_limit_wait\<close> leaves the state below untouched.
\<close>

record client =
  base_url :: string
  cache_dir :: string

text \<open>
  What one call of \<^verbatim>\<open>requests.get\<close> can do: fail to connect, or deliver a status code and
  a body that is JSON (\<open>Some\<close>) or is not (\<open>None\<close>).
\<close>

datatype http_outcome = NoConnection | Response nat "pyval option"

text \<open>The subclasses of \<^verbatim>\<open>requests.exceptions.RequestException\<close> that \<^verbatim>\<open>get\<close> can raise.\<close>

datatype request_error = ConnectionError | HTTPError nat | JSONDecodeError

text \<open>
  The world outside the client: the cache files (path and JSON content), the outcomes
  of the requests still to come, in order (when the list is used up the network is
  unreachable), and the log of the URLs requested so far.
\<close>

record world =
  files :: "(string \<times> pyval) list"
  network :: "http_outcome list"
  requested :: "string list"

text \<open>\<^verbatim>\<open>endpoint.replace("/", "_").replace("?", "_")\<close>\<close>

definition replace_char :: "char \<Rightarrow> char \<Rightarrow> string \<Rightarrow> string" where
  "replace_char old new s = map (\<lambda>c. if c = old then new else c) s"

definition get_cache_path :: "client \<Rightarrow> string \<Rightarrow> string" where
  "get_cache_path c endpoint =
     (let cache_key = replace_char (CHR ''?'') (CHR ''_'') (replace_char (CHR ''/'') (CHR ''_'') endpoint)
      in cache_dir c @ ''/'' @ cache_key @ ''.json'')"

text \<open>\<^verbatim>\<open>_get_from_cache\<close>: the file's content when the file exists, \<^verbatim>\<open>None\<close> otherwise.\<close>

definition get_from_cache :: "client \<Rightarrow> string \<Rightarrow> world \<Rightarrow> pyval" where
  "get_from_cache c endpoint w =
     (case map_of (files w) (get_cache_path c endpoint) of
        Some data \<Rightarrow> data
      | None \<Rightarrow> PNone)"

definition save_to_cache :: "client \<Rightarrow> string \<Rightarrow> pyval \<Rightarrow> world \<Rightarrow> world" where
  "save_to_cache c endpoint data w =
     w\<lparr>files := AList.update (get_cache_path c endpoint) data (files w)\<rparr>"

text \<open>\<^verbatim>\<open>requests.get(url)\<close>: consumes the next outcome and logs the URL.\<close>

definition requests_get :: "string \<Rightarrow> world \<Rightarrow> http_outcome \<times> world" where
  "requests_get url w =
     (case network w of
        [] \<Rightarrow> (NoConnection, w\<lparr>requested := requested w @ [url]\<rparr>)
      | r # rs \<Rightarrow> (r, w\<lparr>network := rs, requested := requested w @ [url]\<rparr>))"

text \<open>The body of \<^verbatim>\<open>get\<close>, one attempt.\<close>

definition get_attempt :: "client \<Rightarrow> string \<Rightarrow> bool \<Rightarrow> world \<Rightarrow> (request_error + pyval) \<times> world" where
  "get_attempt c endpoint use_cache w =
     (if use_cache \<and> truthy (get_from_cache c endpoint w)
      then (Inr (get_from_cache c endpoint w), w)
      else
        let url = base_url c @ ''/'' @ dropWhile (\<lambda>ch. ch = CHR ''/'') endpoint;
            (outcome, w1) = requests_get url w
        in case outcome of
             NoConnection \<Rightarrow> (Inl ConnectionError, w1)
           | Response status body \<Rightarrow>
               if 400 \<le> status \<and> status < 600 then (Inl (HTTPError status), w1)
               else (case body of
                       None \<Rightarrow> (Inl JSONDecodeError, w1)
                     | Some data \<Rightarrow>
                         (Inr data, if use_cache then save_to_cache c endpoint data w1 else w1)))"

text \<open>
  \<^verbatim>\<open>backoff.on_exception(backoff.expo, ..., max_tries=5)\<close>: the decorated function is called
  again after an exception of the listed classes, until it returns or the tries are used
  up; the last exception is then raised. The argument counts the retries that remain.
\<close>

fun on_exception :: "nat \<Rightarrow> ('s \<Rightarrow> ('e + 'a) \<times> 's) \<Rightarrow> 's \<Rightarrow> ('e + 'a) \<times> 's" where
  "on_exception 0 f s = f s"
| "on_exception (Suc n) f s =
     (case f s of
        (Inl e, s') \<Rightarrow> on_exception n f s'
      | (Inr v, s') \<Rightarrow> (Inr v, s'))"

definition get :: "client \<Rightarrow> string \<Rightarrow> bool \<Rightarrow> world \<Rightarrow> (request_error + pyval) \<times> world" where
  "get c endpoint use_cache w = on_exception 4 (get_attempt c endpoint use_cache) w"

text \<open>The client of the test suite and two worlds used as concrete inputs.\<close>

definition test_client :: client where
  "test_client = \<lparr>base_url = ''https://pokeapi.co/api/v2'', cache_dir = ''cache''\<rparr>"

definition flaky_world :: world where
  "flaky_world =
     \<lparr>files = [],
      network = [NoConnection, Response 200 (Some (PDict [(''id'', PInt 2), (''name'', PStr ''ivysaur'')]))],
      requested = []\<rparr>"

definition fresh_world :: world where
  "fresh_world =
     \<lparr>files = [],
      network = [Response 200 (Some (PDict [(''id'', PInt 2), (''name'', PStr ''ivysaur'')]))],
      requested = []\<rparr>"

section \<open>Python operations on values\<close>

text \<open>Sequencing of computations that may raise: the first exception ends the computation.\<close>

definition ebind :: "'e + 'a \<Rightarrow> ('a \<Rightarrow> 'e + 'b) \<Rightarrow> 'e + 'b" where
  "ebind m f = (case m of Inl e \<Rightarrow> Inl e | Inr v \<Rightarrow> f v)"

text \<open>
  \<^verbatim>\<open>d[key]\<close> with a string key: \<^verbatim>\<open>KeyError\<close> on a dictionary without the key,
  \<^verbatim>\<open>TypeError\<close> on every other value.
\<close>

fun subscript :: "pyval \<Rightarrow> string \<Rightarrow> py_error + pyval" where
  "subscript (PDict kvs) k = (case map_of kvs k of None \<Rightarrow> Inl KeyError | Some v \<Rightarrow> Inr v)"
| "subscript v k = Inl TypeError"

text \<open>\<^verbatim>\<open>d.get(key, default)\<close>: only dictionaries have the method.\<close>

fun dict_get :: "pyval \<Rightarrow> string \<Rightarrow> pyval \<Rightarrow> py_error + pyval" where
  "dict_get (PDict kvs) k dflt = (case map_of kvs k of None \<Rightarrow> Inr dflt | Some v \<Rightarrow> Inr v)"
| "dict_get v k dflt = Inl AttributeError"

text \<open>
  The items a \<^verbatim>\<open>for\<close> loop runs over: the elements of a list, the keys of a dictionary,
  the characters of a string; the other values are not iterable.
\<close>

fun py_iter :: "pyval \<Rightarrow> py_error + pyval list" where
  "py_iter (PList xs) = Inr xs"
| "py_iter (PDict kvs) = Inr (map (\<lambda>kv. PStr (fst kv)) kvs)"
| "py_iter (PStr s) = Inr (map (\<lambda>c. PStr [c]) s)"
| "py_iter v = Inl TypeError"

text \<open>
  A loop whose body appends rows to a list: the rows of all iterations in order, or the
  first exception.
\<close>

fun for_each :: "('a \<Rightarrow> py_error + 'b list) \<Rightarrow> 'a list \<Rightarrow> py_error + 'b list" where
  "for_each body [] = Inr []"
| "for_each body (x # xs) =
     ebind (body x) (\<lambda>rows. ebind (for_each body xs) (\<lambda>rest. Inr (rows @ rest)))"

text \<open>\<^verbatim>\<open>s.rstrip('/')\<close> and \<^verbatim>\<open>s.split('/')\<close>\<close>

definition rstrip :: "char \<Rightarrow> string \<Rightarrow> string" where
  "rstrip ch s = rev (dropWhile (\<lambda>c. c = ch) (rev s))"

fun split_on :: "char \<Rightarrow> string \<Rightarrow> string list" where
  "split_on sep [] = [[]]"
| "split_on sep (c # cs) =
     (if c = sep then [] # split_on sep cs
      else (case split_on sep cs of
              [] \<Rightarrow> [[c]]
            | p # ps \<Rightarrow> (c # p) # ps))"

text \<open>
  \<^verbatim>\<open>int(s)\<close> on a string of ASCII characters: surrounding whitespace, an optional sign,
  then decimal digits, where single underscores may separate digits. Anything else is a
  \<^verbatim>\<open>ValueError\<close>. (Digits and spaces beyond ASCII and the interpreter's limit on the
  number of digits are left out.)
\<close>

definition is_space :: "char \<Rightarrow> bool" where
  "is_space c = (c \<in> set [CHR '' '', CHR 0x09, CHR 0x0A, CHR 0x0B, CHR 0x0C, CHR 0x0D])"

definition is_digit :: "char \<Rightarrow> bool" where
  "is_digit c = (c \<in> set ''0123456789'')"

definition digit_value :: "char \<Rightarrow> int" where
  "digit_value c = int (of_char c) - 48"

fun digits_value :: "int \<Rightarrow> string \<Rightarrow> int option" where
  "digits_value acc [] = Some acc"
| "digits_value acc [c] = (if is_digit c then Some (10 * acc + digit_value c) else None)"
| "digits_value acc (c # d # ds) =
     (if is_digit c then digits_value (10 * acc + digit_value c) (d # ds)
      else if c = CHR ''_'' \<and> is_digit d then digits_value (10 * acc + digit_value d) ds
      else None)"

definition py_int :: "string \<Rightarrow> py_error + int" where
  "py_int s =
     (let t = rev (dropWhile is_space (rev (dropWhile is_space s)));
          (sign, body) = (case t of
                            [] \<Rightarrow> (1, [])
                          | c # cs \<Rightarrow> if c = CHR ''-'' then (- 1, cs)
                                       else if c = CHR ''+'' then (1, cs)
                                       else (1, t))
      in case body of
           [] \<Rightarrow> Inl ValueError
         | c # cs \<Rightarrow>
             if is_digit c
             then (case digits_value (digit_value c) cs of
                     None \<Rightarrow> Inl ValueError
                   | Some n \<Rightarrow> Inr (sign * n))
             else Inl ValueError)"

section \<open>The Pokemon transformer (src/transformation/pokemon_transformer.py)\<close>

text \<open>
  \<^verbatim>\<open>_extract_id_from_url\<close>: \<^verbatim>\<open>int(url.rstrip('/').split('/')[-1])\<close>. Only strings have
  \<^verbatim>\<open>rstrip\<close>; \<^verbatim>\<open>split\<close> never returns an empty list, so the last part exists.
\<close>

fun extract_id_from_url :: "pyval \<Rightarrow> py_error + pyval" where
  "extract_id_from_url (PStr url) =
     ebind (py_int (last (split_on (CHR ''/'') (rstrip (CHR ''/'') url)))) (\<lambda>n. Inr (PInt n))"
| "extract_id_from_url v = Inl AttributeError"

text \<open>The version groups whose move data is kept.\<close>

definition allowed_version_groups :: "pyval list" where
  "allowed_version_groups = [PStr ''sword-shield'', PStr ''sun-moon'', PStr ''x-y'']"

text \<open>
  The inner loop over \<^verbatim>\<open>version_group_details\<close>: the first detail whose version group
  is allowed gives the move row and ends the loop (\<^verbatim>\<open>break\<close>).
\<close>

fun version_group_loop :: "pyval \<Rightarrow> pyval \<Rightarrow> pyval list \<Rightarrow> py_error + pyval list" where
  "version_group_loop raw_data move_id [] = Inr []"
| "version_group_loop raw_data move_id (version_group_detail # rest) =
     ebind (subscript version_group_detail ''version_group'') (\<lambda>vg.
     ebind (subscript vg ''name'') (\<lambda>vg_name.
       if vg_name \<in> set allowed_version_groups
       then
         ebind (subscript raw_data ''id'') (\<lambda>pokemon_id.
         ebind (subscript version_group_detail ''level_learned_at'') (\<lambda>level.
         ebind (subscript version_group_detail ''move_learn_method'') (\<lambda>learn_method.
         ebind (subscript learn_method ''name'') (\<lambda>learn_method_name.
           Inr [PDict [(''pokemon_id'', pokemon_id),
                       (''move_id'', move_id),
                       (''level_learned_at'', level),
                       (''learn_method'', learn_method_name)]]))))
       else version_group_loop raw_data move_id rest))"

text \<open>The body of the loop over \<^verbatim>\<open>raw_data.get('moves', [])\<close>.\<close>

definition move_entry_rows :: "pyval \<Rightarrow> pyval \<Rightarrow> py_error + pyval list" where
  "move_entry_rows raw_data move_entry =
     ebind (subscript move_entry ''move'') (\<lambda>mv.
     ebind (subscript mv ''url'') (\<lambda>url.
     ebind (extract_id_from_url url) (\<lambda>move_id.
     ebind (dict_get move_entry ''version_group_details'' (PList [])) (\<lambda>details.
     ebind (py_iter details) (\<lambda>ds.
       version_group_loop raw_data move_id ds)))))"

definition stat_rows :: "pyval \<Rightarrow> pyval \<Rightarrow> py_error + pyval list" where
  "stat_rows raw_data stat_data =
     ebind (subscript raw_data ''id'') (\<lambda>pokemon_id.
     ebind (subscript stat_data ''stat'') (\<lambda>st.
     ebind (subscript st ''name'') (\<lambda>stat_name.
     ebind (subscript stat_data ''base_stat'') (\<lambda>base_value.
       Inr [PDict [(''pokemon_id'', pokemon_id),
                   (''stat_name'', stat_name),
                   (''base_value'', base_value)]]))))"

definition type_rows :: "pyval \<Rightarrow> pyval \<Rightarrow> py_error + pyval list" where
  "type_rows raw_data type_data =
     ebind (subscript raw_data ''id'') (\<lambda>pokemon_id.
     ebind (subscript type_data ''type'') (\<lambda>ty.
     ebind (subscript ty ''url'') (\<lambda>url.
     ebind (extract_id_from_url url) (\<lambda>type_id.
     ebind (subscript type_data ''slot'') (\<lambda>slot.
       Inr [PDict [(''pokemon_id'', pokemon_id),
                   (''type_id'', type_id),
                   (''slot'', slot)]])))))"

definition ability_rows :: "pyval \<Rightarrow> pyval \<Rightarrow> py_error + pyval list" where
  "ability_rows raw_data ability_data =
     ebind (subscript raw_data ''id'') (\<lambda>pokemon_id.
     ebind (subscript ability_data ''ability'') (\<lambda>ab.
     ebind (subscript ab ''url'') (\<lambda>url.
     ebind (extract_id_from_url url) (\<lambda>ability_id.
     ebind (subscript ability_data ''is_hidden'') (\<lambda>is_hidden.
     ebind (subscript ability_data ''slot'') (\<lambda>slot.
       Inr [PDict [(''pokemon_id'', pokemon_id),
                   (''ability_id'', ability_id),
                   (''is_hidden'', is_hidden),
                   (''slot'', slot)]]))))))"

text \<open>The dictionary that \<^verbatim>\<open>transform_pokemon\<close> returns, one field for each of its keys.\<close>

record transformed_data =
  t_pokemon :: pyval
  t_stats :: "pyval list"
  t_types :: "pyval list"
  t_abilities :: "pyval list"
  t_moves :: "pyval list"

definition transform_pokemon :: "pyval \<Rightarrow> py_error + transformed_data" where
  "transform_pokemon raw_data =
     ebind (dict_get raw_data ''species_details'' (PDict [])) (\<lambda>species_details.
     ebind (subscript raw_data ''id'') (\<lambda>p_id.
     ebind (subscript raw_data ''name'') (\<lambda>p_name.
     ebind (subscript raw_data ''height'') (\<lambda>p_height.
     ebind (subscript raw_data ''weight'') (\<lambda>p_weight.
     ebind (dict_get raw_data ''base_experience'' PNone) (\<lambda>p_base_experience.
     ebind (subscript raw_data ''is_default'') (\<lambda>p_is_default.
     ebind (dict_get raw_data ''order'' PNone) (\<lambda>p_order.
     let pokemon = PDict [(''id'', p_id), (''name'', p_name), (''height'', p_height),
                          (''weight'', p_weight), (''base_experience'', p_base_experience),
                          (''is_default'', p_is_default), (''order_num'', p_order)]
     in
     ebind (dict_get raw_data ''stats'' (PList [])) (\<lambda>stats_v.
     ebind (py_iter stats_v) (\<lambda>stats_items.
     ebind (for_each (stat_rows raw_data) stats_items) (\<lambda>stats.
     ebind (dict_get raw_data ''types'' (PList [])) (\<lambda>types_v.
     ebind (py_iter types_v) (\<lambda>types_items.
     ebind (for_each (type_rows raw_data) types_items) (\<lambda>types.
     ebind (dict_get raw_data ''abilities'' (PList [])) (\<lambda>abilities_v.
     ebind (py_iter abilities_v) (\<lambda>abilities_items.
     ebind (for_each (ability_rows raw_data) abilities_items) (\<lambda>abilities.
     ebind (dict_get raw_data ''moves'' (PList [])) (\<lambda>moves_v.
     ebind (py_iter moves_v) (\<lambda>moves_items.
     ebind (for_each (move_entry_rows raw_data) moves_items) (\<lambda>moves.
       Inr \<lparr>t_pokemon = pokemon, t_stats = stats, t_types = types,
            t_abilities = abilities, t_moves = moves\<rparr>))))))))))))))))))))"

subsection \<open>The move rule in the specification's words\<close>

text \<open>
  For each move entry only the first version-group detail whose version group is in the
  allow-list is kept; it gives one row with that detail's level and learn method. The
  readers below return \<^verbatim>\<open>None\<close> for a field that is absent.
\<close>

definition field :: "pyval \<Rightarrow> string \<Rightarrow> pyval" where
  "field v k = (case subscript v k of Inl e \<Rightarrow> PNone | Inr x \<Rightarrow> x)"

definition in_allow_list :: "pyval \<Rightarrow> bool" where
  "in_allow_list detail =
     (field (field detail ''version_group'') ''name'' \<in> set allowed_version_groups)"

definition details_of :: "pyval \<Rightarrow> pyval list" where
  "details_of move_entry =
     (case ebind (dict_get move_entry ''version_group_details'' (PList [])) py_iter of
        Inl e \<Rightarrow> []
      | Inr ds \<Rightarrow> ds)"

definition spec_move_row :: "pyval \<Rightarrow> pyval \<Rightarrow> pyval \<Rightarrow> pyval" where
  "spec_move_row raw_data move_entry detail =
     PDict [(''pokemon_id'', field raw_data ''id''),
            (''move_id'', (case extract_id_from_url (field (field move_entry ''move'') ''url'') of
                             Inl e \<Rightarrow> PNone | Inr n \<Rightarrow> n)),
            (''level_learned_at'', field detail ''level_learned_at''),
            (''learn_method'', field (field detail ''move_learn_method'') ''name'')]"

definition spec_move_rows :: "pyval \<Rightarrow> pyval \<Rightarrow> pyval list" where
  "spec_move_rows raw_data move_entry =
     (case find in_allow_list (details_of move_entry) of
        None \<Rightarrow> []
      | Some detail \<Rightarrow> [spec_move_row raw_data move_entry detail])"

text \<open>The items of \<^verbatim>\<open>raw_data.get('moves', [])\<close>.\<close>

definition move_entries :: "pyval \<Rightarrow> pyval list" where
  "move_entries raw_data =
     (case ebind (dict_get raw_data ''moves'' (PList [])) py_iter of
        Inl e \<Rightarrow> []
      | Inr es \<Rightarrow> es)"

subsection \<open>The record of the test suite\<close>

text \<open>\<^verbatim>\<open>sample_pokemon\<close> of tests/test_pokemon_transformer.py, with a second move whose only
  version group is outside the allow-list.\<close>

definition thunderbolt_entry :: pyval where
  "thunderbolt_entry =
     PDict [(''move'', PDict [(''name'', PStr ''thunderbolt''),
                              (''url'', PStr ''https://pokeapi.co/api/v2/move/85/'')]),
            (''version_group_details'',
               PList [PDict [(''level_learned_at'', PInt 0),
                             (''move_learn_method'', PDict [(''name'', PStr ''machine'')]),
                             (''version_group'', PDict [(''name'', PStr ''sword-shield'')])]])]"

definition old_move_entry :: pyval where
  "old_move_entry =
     PDict [(''move'', PDict [(''name'', PStr ''pay-day''),
                              (''url'', PStr ''https://pokeapi.co/api/v2/move/6/'')]),
            (''version_group_details'',
               PList [PDict [(''level_learned_at'', PInt 0),
                             (''move_learn_method'', PDict [(''name'', PStr ''machine'')]),
                             (''version_group'', PDict [(''name'', PStr ''red-blue'')])]])]"

definition sample_pokemon :: pyval where
  "sample_pokemon =
     PDict [(''id'', PInt 25), (''name'', PStr ''pikachu''), (''height'', PInt 4),
            (''weight'', PInt 60), (''base_experience'', PInt 112),
            (''is_default'', PBool True), (''order'', PInt 35),
            (''stats'', PList [PDict [(''base_stat'', PInt 35), (''effort'', PInt 0),
                                      (''stat'', PDict [(''name'', PStr ''hp'')])]]),
            (''types'', PList [PDict [(''slot'', PInt 1),
                                      (''type'', PDict [(''name'', PStr ''electric''),
                                                        (''url'', PStr ''https://pokeapi.co/api/v2/type/13/'')])]]),
            (''abilities'', PList []),
            (''moves'', PList [thunderbolt_entry, old_move_entry])]"

definition sample_transformed :: transformed_data where
  "sample_transformed =
     \<lparr>t_pokemon = PDict [(''id'', PInt 25), (''name'', PStr ''pikachu''), (''height'', PInt 4),
                         (''weight'', PInt 60), (''base_experience'', PInt 112),
                         (''is_default'', PBool True), (''order_num'', PInt 35)],
      t_stats = [PDict [(''pokemon_id'', PInt 25), (''stat_name'', PStr ''hp''),
                        (''base_value'', PInt 35)]],
      t_types = [PDict [(''pokemon_id'', PInt 25), (''type_id'', PInt 13), (''slot'', PInt 1)]],
      t_abilities = [],
      t_moves = [PDict [(''pokemon_id'', PInt 25), (''move_id'', PInt 85),
                        (''level_learned_at'', PInt 0), (''learn_method'', PStr ''machine'')]]\<rparr>"

section \<open>The relational store (src/models)\<close>

text \<open>
  One record for each mapped class, one field for each column; a nullable column has an
  option type. The surrogate \<^verbatim>\<open>id\<close> of the stat, effectiveness and association tables
  is assigned by the database in the order of insertion; it is left out, and a table is
  the list of its rows in insertion order, so that the position of a row stands for its
  surrogate \<^verbatim>\<open>id\<close>. The column \<^verbatim>\<open>effectiveness\<close> is \<^verbatim>\<open>Numeric(3, 2)\<close>; the values that the
  type transformer produces (0, 0.5 and 2) are stored as they are, and rounding and the
  range of the column are not modelled.
\<close>

record pokemon_row =
  p_id :: int
  p_name :: string
  p_height :: int
  p_weight :: int
  p_base_experience :: "int option"
  p_is_default :: bool
  p_order_num :: "int option"

record pokemon_stat_row =
  ps_pokemon_id :: int
  ps_stat_name :: string
  ps_base_value :: int

record type_row =
  ty_id :: int
  ty_name :: string

record pokemon_type_row =
  pt_pokemon_id :: int
  pt_type_id :: int
  pt_slot :: int

record type_effectiveness_row =
  te_attack_type_id :: int
  te_defense_type_id :: int
  te_effectiveness :: rat

record ability_row =
  ab_id :: int
  ab_name :: string
  ab_effect_text :: "string option"
  ab_short_effect :: "string option"

record pokemon_ability_row =
  pa_pokemon_id :: int
  pa_ability_id :: int
  pa_is_hidden :: bool
  pa_slot :: int

record move_row =
  mv_id :: int
  mv_name :: string
  mv_power :: "int option"
  mv_pp :: "int option"
  mv_accuracy :: "int option"
  mv_type_id :: "int option"
  mv_damage_class :: "string option"

record pokemon_move_row =
  pm_pokemon_id :: int
  pm_move_id :: int
  pm_level_learned_at :: "int option"
  pm_learn_method :: "string option"

record store =
  pokemon :: "pokemon_row list"
  pokemon_stats :: "pokemon_stat_row list"
  types :: "type_row list"
  pokemon_types :: "pokemon_type_row list"
  type_effectiveness :: "type_effectiveness_row list"
  abilities :: "ability_row list"
  pokemon_abilities :: "pokemon_ability_row list"
  moves :: "move_row list"
  pokemon_moves :: "pokemon_move_row list"

definition empty_store :: store where
  "empty_store =
     \<lparr>pokemon = [], pokemon_stats = [], types = [], pokemon_types = [],
      type_effectiveness = [], abilities = [], pokemon_abilities = [], moves = [],
      pokemon_moves = []\<rparr>"

text \<open>
  The constraints that the models declare: primary keys, the unique names, and the
  foreign keys (a nullable foreign key may be \<^verbatim>\<open>NULL\<close>). The models declare no uniqueness
  for the natural keys of the association tables.
\<close>

definition constraints_ok :: "store \<Rightarrow> bool" where
  "constraints_ok st \<longleftrightarrow>
     distinct (map p_id (pokemon st)) \<and>
     distinct (map ty_id (types st)) \<and>
     distinct (map ty_name (types st)) \<and>
     distinct (map ab_id (abilities st)) \<and>
     distinct (map ab_name (abilities st)) \<and>
     distinct (map mv_id (moves st)) \<and>
     distinct (map mv_name (moves st)) \<and>
     list_all (\<lambda>r. ps_pokemon_id r \<in> set (map p_id (pokemon st))) (pokemon_stats st) \<and>
     list_all (\<lambda>r. pt_pokemon_id r \<in> set (map p_id (pokemon st)) \<and>
                    pt_type_id r \<in> set (map ty_id (types st))) (pokemon_types st) \<and>
     list_all (\<lambda>r. te_attack_type_id r \<in> set (map ty_id (types st)) \<and>
                    te_defense_type_id r \<in> set (map ty_id (types st))) (type_effectiveness st) \<and>
     list_all (\<lambda>r. pa_pokemon_id r \<in> set (map p_id (pokemon st)) \<and>
                    pa_ability_id r \<in> set (map ab_id (abilities st))) (pokemon_abilities st) \<and>
     list_all (\<lambda>r. case mv_type_id r of None \<Rightarrow> True
                    | Some t \<Rightarrow> t \<in> set (map ty_id (types st))) (moves st) \<and>
     list_all (\<lambda>r. pm_pokemon_id r \<in> set (map p_id (pokemon st)) \<and>
                    pm_move_id r \<in> set (map mv_id (moves st))) (pokemon_moves st)"

section \<open>The type analyzer (src/analytics/type_analyzer.py)\<close>

text \<open>
  A data frame with row labels, column labels and a value for each pair of labels.
  A missing value (NaN) of a pivot table is \<open>None\<close>.
\<close>

record 'v frame =
  df_index :: "string list"
  df_columns :: "string list"
  df_cell :: "string \<Rightarrow> string \<Rightarrow> 'v"

text \<open>
  The numbers in the cells of the matrix. The queries are textual SQL run with
  \<^verbatim>\<open>self.db.execute(text(query))\<close> on the PostgreSQL database of src/models/base.py, and
  the driver returns a value of the column \<^verbatim>\<open>effectiveness\<close>, declared \<^verbatim>\<open>Numeric(3, 2)\<close> in
  src/models/type.py, as a \<^verbatim>\<open>decimal.Decimal\<close>. The value that \<^verbatim>\<open>fillna(1.0)\<close> writes is a
  \<^verbatim>\<open>float\<close>.
\<close>

datatype py_number = Decimal rat | Float rat

text \<open>
  The query of \<^verbatim>\<open>get_effectiveness_matrix\<close>: every effectiveness row joined with the type
  of its attacking and of its defending identifier.
\<close>

definition effectiveness_query :: "store \<Rightarrow> (string \<times> string \<times> py_number) list" where
  "effectiveness_query st =
     [(ty_name atk, ty_name dfn, Decimal (te_effectiveness te)).
        te \<leftarrow> type_effectiveness st,
        atk \<leftarrow> types st, te_attack_type_id te = ty_id atk,
        dfn \<leftarrow> types st, te_defense_type_id te = ty_id dfn]"

text \<open>
  \<^verbatim>\<open>df_flat.pivot(index=..., columns=..., values=...)\<close>: the labels are the sorted distinct
  values of the two key columns; a repeated pair of keys is a \<^verbatim>\<open>ValueError\<close>.
\<close>

definition pivot :: "(string \<times> string \<times> 'v) list \<Rightarrow> py_error + 'v option frame" where
  "pivot df_flat =
     (if \<not> distinct (map (\<lambda>r. (fst r, fst (snd r))) df_flat) then Inl ValueError
      else Inr \<lparr>df_index = sort (remdups (map fst df_flat)),
                df_columns = sort (remdups (map (\<lambda>r. fst (snd r)) df_flat)),
                df_cell = (\<lambda>a d. map_of (map (\<lambda>r. ((fst r, fst (snd r)), snd (snd r))) df_flat) (a, d))\<rparr>)"

definition fillna :: "'v \<Rightarrow> 'v option frame \<Rightarrow> 'v frame" where
  "fillna v fr =
     \<lparr>df_index = df_index fr,
      df_columns = df_columns fr,
      df_cell = (\<lambda>a d. case df_cell fr a d of None \<Rightarrow> v | Some x \<Rightarrow> x)\<rparr>"

definition get_effectiveness_matrix :: "store \<Rightarrow> py_error + py_number frame" where
  "get_effectiveness_matrix st =
     ebind (pivot (effectiveness_query st)) (\<lambda>matrix. Inr (fillna (Float 1) matrix))"

text \<open>\<^verbatim>\<open>matrix.loc[a, d]\<close>: a label that the frame does not have is a \<^verbatim>\<open>KeyError\<close>.\<close>

definition loc :: "'v frame \<Rightarrow> string \<Rightarrow> string \<Rightarrow> py_error + 'v" where
  "loc fr a d =
     (if a \<in> set (df_index fr) \<and> d \<in> set (df_columns fr) then Inr (df_cell fr a d)
      else Inl KeyError)"

text \<open>
  The type query of \<^verbatim>\<open>get_pokemon_weakness_profile\<close>: the names of the Pokemon's types,
  ordered by slot (rows of equal slot in table order).
\<close>

definition pokemon_types_query :: "store \<Rightarrow> int \<Rightarrow> string list" where
  "pokemon_types_query st pokemon_id =
     map snd (sort_key fst
       [(pt_slot pt, ty_name t).
          pt \<leftarrow> pokemon_types st, pt_pokemon_id pt = pokemon_id,
          t \<leftarrow> types st, pt_type_id pt = ty_id t])"

text \<open>
  \<^verbatim>\<open>name_result.fetchone()[0]\<close> for the name query: without a row \<^verbatim>\<open>fetchone()\<close> is
  \<^verbatim>\<open>None\<close>, and subscripting it is a \<^verbatim>\<open>TypeError\<close>.
\<close>

definition pokemon_name_query :: "store \<Rightarrow> int \<Rightarrow> py_error + string" where
  "pokemon_name_query st pokemon_id =
     (case find (\<lambda>p. p_id p = pokemon_id) (pokemon st) of
        None \<Rightarrow> Inl TypeError
      | Some p \<Rightarrow> Inr (p_name p))"

text \<open>
  \<^verbatim>\<open>combined_effectiveness *= matrix.loc[attack_type, defense_type]\<close>, where
  \<^verbatim>\<open>combined_effectiveness\<close> is a \<^verbatim>\<open>float\<close>: the product with a \<^verbatim>\<open>float\<close> is a \<^verbatim>\<open>float\<close>, and
  the product of a \<^verbatim>\<open>float\<close> with a \<^verbatim>\<open>decimal.Decimal\<close> is a \<^verbatim>\<open>TypeError\<close>. The only
  floats that meet here are 1.0, whose product is exact.
\<close>

fun float_imul :: "rat \<Rightarrow> py_number \<Rightarrow> py_error + rat" where
  "float_imul x (Float y) = Inr (x * y)"
| "float_imul x (Decimal y) = Inl TypeError"

text \<open>
  The inner loop, from \<^verbatim>\<open>combined_effectiveness = 1.0\<close>: the product over the Pokemon's
  types that are columns of the matrix.
\<close>

fun combined_effectiveness ::
  "py_number frame \<Rightarrow> string \<Rightarrow> string list \<Rightarrow> rat \<Rightarrow> py_error + rat" where
  "combined_effectiveness matrix attack_type [] acc = Inr acc"
| "combined_effectiveness matrix attack_type (defense_type # rest) acc =
     (if defense_type \<in> set (df_columns matrix)
      then ebind (loc matrix attack_type defense_type) (\<lambda>v.
           ebind (float_imul acc v) (\<lambda>acc.
             combined_effectiveness matrix attack_type rest acc))
      else combined_effectiveness matrix attack_type rest acc)"

text \<open>
  \<^verbatim>\<open>df.sort_values(by="effectiveness", ascending=False)\<close> on rows of an attacking type and
  an effectiveness. Rows of equal effectiveness keep their order here; pandas does not
  fix their order.
\<close>

definition sort_values_desc :: "(string \<times> rat) list \<Rightarrow> (string \<times> rat) list" where
  "sort_values_desc rows = sort_key (\<lambda>r. - snd r) rows"

text \<open>
  The result is the list of rows of the returned frame; the frame without rows is \<open>[]\<close>.
  A frame built from an empty list of records has no column \<^verbatim>\<open>effectiveness\<close>, and sorting
  it by that column is a \<^verbatim>\<open>KeyError\<close>.
\<close>

definition get_pokemon_weakness_profile :: "store \<Rightarrow> int \<Rightarrow> py_error + (string \<times> rat) list" where
  "get_pokemon_weakness_profile st pokemon_id =
     (let pokemon_types = pokemon_types_query st pokemon_id in
      if pokemon_types = [] then Inr []
      else
        ebind (get_effectiveness_matrix st) (\<lambda>matrix.
        ebind (for_each (\<lambda>attack_type.
                 ebind (combined_effectiveness matrix attack_type pokemon_types 1) (\<lambda>e.
                   Inr [(attack_type, e)]))
               (df_index matrix)) (\<lambda>effectiveness_against.
        if effectiveness_against = [] then Inl KeyError
        else
          let df = sort_values_desc effectiveness_against in
          ebind (pokemon_name_query st pokemon_id) (\<lambda>pokemon_name. Inr df))))"

text \<open>
  The description column. The three cases stand for the strings
  \<^verbatim>\<open>4x (extremely effective)\<close>, \<^verbatim>\<open>2x (super effective)\<close> and the formatted value followed by
  \<^verbatim>\<open>x (effective)\<close>.
\<close>

datatype label = ExtremelyEffective | SuperEffective | Effective rat

definition get_effectiveness_label :: "rat \<Rightarrow> label" where
  "get_effectiveness_label v =
     (if v \<ge> 4 then ExtremelyEffective
      else if v \<ge> 2 then SuperEffective
      else Effective v)"

text \<open>\<^verbatim>\<open>df.head(n)\<close>: the first \<open>n\<close> rows, or for a negative \<open>n\<close> all rows but the last \<open>-n\<close>.\<close>

definition head :: "int \<Rightarrow> 'a list \<Rightarrow> 'a list" where
  "head n xs = (if 0 \<le> n then take (nat n) xs else take (length xs - nat (- n)) xs)"

definition recommend_counter_types ::
  "store \<Rightarrow> int \<Rightarrow> int \<Rightarrow> py_error + (string \<times> rat \<times> label) list" where
  "recommend_counter_types st pokemon_id top_n =
     ebind (get_pokemon_weakness_profile st pokemon_id) (\<lambda>weakness_profile.
     if weakness_profile = [] then Inr []
     else
       let counters = filter (\<lambda>r. snd r > 1) weakness_profile;
           counters = sort_values_desc counters;
           counters = (if int (length counters) > top_n then head top_n counters else counters);
           counters = map (\<lambda>r. (fst r, snd r, get_effectiveness_label (snd r))) counters
       in ebind (pokemon_name_query st pokemon_id) (\<lambda>pokemon_name. Inr counters))"

subsection \<open>The labels of the matrix\<close>

definition matrix_labels :: "store \<Rightarrow> py_error + (string list \<times> string list)" where
  "matrix_labels st =
     ebind (get_effectiveness_matrix st) (\<lambda>matrix. Inr (df_index matrix, df_columns matrix))"

subsection \<open>A small store\<close>

definition sample_store :: store where
  "sample_store =
     \<lparr>pokemon =
        [\<lparr>p_id = 25, p_name = ''pikachu'', p_height = 4, p_weight = 60,
          p_base_experience = Some 112, p_is_default = True, p_order_num = Some 35\<rparr>,
         \<lparr>p_id = 130, p_name = ''gyarados'', p_height = 65, p_weight = 2350,
          p_base_experience = Some 189, p_is_default = True, p_order_num = Some 212\<rparr>,
         \<lparr>p_id = 132, p_name = ''ditto'', p_height = 3, p_weight = 40,
          p_base_experience = Some 101, p_is_default = True, p_order_num = Some 214\<rparr>],
      pokemon_stats =
        [\<lparr>ps_pokemon_id = 25, ps_stat_name = ''hp'', ps_base_value = 35\<rparr>],
      types =
        [\<lparr>ty_id = 1, ty_name = ''normal''\<rparr>, \<lparr>ty_id = 3, ty_name = ''flying''\<rparr>,
         \<lparr>ty_id = 5, ty_name = ''ground''\<rparr>, \<lparr>ty_id = 6, ty_name = ''rock''\<rparr>,
         \<lparr>ty_id = 11, ty_name = ''water''\<rparr>, \<lparr>ty_id = 13, ty_name = ''electric''\<rparr>],
      pokemon_types =
        [\<lparr>pt_pokemon_id = 25, pt_type_id = 13, pt_slot = 1\<rparr>,
         \<lparr>pt_pokemon_id = 130, pt_type_id = 11, pt_slot = 1\<rparr>,
         \<lparr>pt_pokemon_id = 130, pt_type_id = 3, pt_slot = 2\<rparr>],
      type_effectiveness =
        [\<lparr>te_attack_type_id = 13, te_defense_type_id = 11, te_effectiveness = 2\<rparr>,
         \<lparr>te_attack_type_id = 13, te_defense_type_id = 3, te_effectiveness = 2\<rparr>,
         \<lparr>te_attack_type_id = 13, te_defense_type_id = 5, te_effectiveness = 0\<rparr>,
         \<lparr>te_attack_type_id = 6, te_defense_type_id = 3, te_effectiveness = 2\<rparr>,
         \<lparr>te_attack_type_id = 5, te_defense_type_id = 13, te_effectiveness = 2\<rparr>,
         \<lparr>te_attack_type_id = 11, te_defense_type_id = 6, te_effectiveness = 2\<rparr>],
      abilities =
        [\<lparr>ab_id = 9, ab_name = ''static'', ab_effect_text = None, ab_short_effect = None\<rparr>],
      pokemon_abilities = [],
      moves =
        [\<lparr>mv_id = 85, mv_name = ''thunderbolt'', mv_power = Some 90, mv_pp = Some 15,
          mv_accuracy = Some 100, mv_type_id = Some 13, mv_damage_class = Some ''special''\<rparr>],
      pokemon_moves = []\<rparr>"

section \<open>The database session (src/models/base.py)\<close>

text \<open>
  The objects of the mapped classes. A persistent object is identified by its table and
  the position of its row.
\<close>

datatype entity =
    PokemonObj pokemon_row
  | PokemonStatObj pokemon_stat_row
  | TypeObj type_row
  | TypeEffectivenessObj type_effectiveness_row
  | PokemonTypeObj pokemon_type_row
  | AbilityObj ability_row
  | PokemonAbilityObj pokemon_ability_row
  | PokemonMoveObj pokemon_move_row

fun tablename :: "entity \<Rightarrow> string" where
  "tablename (PokemonObj r) = ''pokemon''"
| "tablename (PokemonStatObj r) = ''pokemon_stats''"
| "tablename (TypeObj r) = ''types''"
| "tablename (TypeEffectivenessObj r) = ''type_effectiveness''"
| "tablename (PokemonTypeObj r) = ''pokemon_types''"
| "tablename (AbilityObj r) = ''abilities''"
| "tablename (PokemonAbilityObj r) = ''pokemon_abilities''"
| "tablename (PokemonMoveObj r) = ''pokemon_moves''"

text \<open>
  A session of \<^verbatim>\<open>sessionmaker(autocommit=False, autoflush=False, bind=engine)\<close>:
  the committed database, the database as the open transaction sees it, the persistent
  objects whose attributes were changed in memory (with their current values), and the
  objects added with \<^verbatim>\<open>add\<close> and not yet inserted. Because the session does not
  autoflush, a query reads the transaction's view and sees neither of the two lists.
\<close>

record session =
  committed :: store
  txn :: store
  dirty :: "(nat \<times> entity) list"
  new :: "entity list"

definition open_session :: "store \<Rightarrow> session" where
  "open_session st = \<lparr>committed = st, txn = st, dirty = [], new = []\<rparr>"

text \<open>
  \<^verbatim>\<open>query(...).filter(...).first()\<close>: the first row that satisfies the filter, with its
  position. The queries of the loader have no \<^verbatim>\<open>ORDER BY\<close>; when several rows satisfy the
  filter the database is free to return any of them, and the first in table order is
  taken here.
\<close>

definition query_first :: "('r \<Rightarrow> bool) \<Rightarrow> 'r list \<Rightarrow> (nat \<times> 'r) option" where
  "query_first P rows = find (\<lambda>ir. P (snd ir)) (enumerate 0 rows)"

text \<open>Setting attributes of a persistent object, and \<^verbatim>\<open>session.add\<close>.\<close>

definition mark_dirty :: "nat \<Rightarrow> entity \<Rightarrow> session \<Rightarrow> session" where
  "mark_dirty i e s =
     s\<lparr>dirty := filter (\<lambda>je. \<not> (fst je = i \<and> tablename (snd je) = tablename e)) (dirty s) @ [(i, e)]\<rparr>"

definition add :: "entity \<Rightarrow> session \<Rightarrow> session" where
  "add e s = s\<lparr>new := new s @ [e]\<rparr>"

text \<open>The UPDATE and INSERT statements of a flush.\<close>

fun update_row :: "nat \<Rightarrow> entity \<Rightarrow> store \<Rightarrow> store" where
  "update_row i (PokemonObj r) st = st\<lparr>pokemon := (pokemon st)[i := r]\<rparr>"
| "update_row i (PokemonStatObj r) st = st\<lparr>pokemon_stats := (pokemon_stats st)[i := r]\<rparr>"
| "update_row i (TypeObj r) st = st\<lparr>types := (types st)[i := r]\<rparr>"
| "update_row i (TypeEffectivenessObj r) st = st\<lparr>type_effectiveness := (type_effectiveness st)[i := r]\<rparr>"
| "update_row i (PokemonTypeObj r) st = st\<lparr>pokemon_types := (pokemon_types st)[i := r]\<rparr>"
| "update_row i (AbilityObj r) st = st\<lparr>abilities := (abilities st)[i := r]\<rparr>"
| "update_row i (PokemonAbilityObj r) st = st\<lparr>pokemon_abilities := (pokemon_abilities st)[i := r]\<rparr>"
| "update_row i (PokemonMoveObj r) st = st\<lparr>pokemon_moves := (pokemon_moves st)[i := r]\<rparr>"

fun insert_row :: "entity \<Rightarrow> store \<Rightarrow> store" where
  "insert_row (PokemonObj r) st = st\<lparr>pokemon := pokemon st @ [r]\<rparr>"
| "insert_row (PokemonStatObj r) st = st\<lparr>pokemon_stats := pokemon_stats st @ [r]\<rparr>"
| "insert_row (TypeObj r) st = st\<lparr>types := types st @ [r]\<rparr>"
| "insert_row (TypeEffectivenessObj r) st = st\<lparr>type_effectiveness := type_effectiveness st @ [r]\<rparr>"
| "insert_row (PokemonTypeObj r) st = st\<lparr>pokemon_types := pokemon_types st @ [r]\<rparr>"
| "insert_row (AbilityObj r) st = st\<lparr>abilities := abilities st @ [r]\<rparr>"
| "insert_row (PokemonAbilityObj r) st = st\<lparr>pokemon_abilities := pokemon_abilities st @ [r]\<rparr>"
| "insert_row (PokemonMoveObj r) st = st\<lparr>pokemon_moves := pokemon_moves st @ [r]\<rparr>"

text \<open>
  The statements run one after the other inside the transaction. A statement whose
  result violates a declared constraint raises \<^verbatim>\<open>IntegrityError\<close> and has no effect; the
  statements before it have had theirs.
\<close>

fun execute_all :: "(store \<Rightarrow> store) list \<Rightarrow> store \<Rightarrow> (py_error + unit) \<times> store" where
  "execute_all [] st = (Inr (), st)"
| "execute_all (stmt # rest) st =
     (if constraints_ok (stmt st) then execute_all rest (stmt st)
      else (Inl IntegrityError, st))"

text \<open>
  The primary key of a persistent object: the column \<^verbatim>\<open>id\<close>, which for the stat,
  effectiveness and association tables is the position of the row.
\<close>

fun primary_key :: "nat \<Rightarrow> entity \<Rightarrow> int" where
  "primary_key i (PokemonObj r) = p_id r"
| "primary_key i (PokemonStatObj r) = int i"
| "primary_key i (TypeObj r) = ty_id r"
| "primary_key i (TypeEffectivenessObj r) = int i"
| "primary_key i (PokemonTypeObj r) = int i"
| "primary_key i (AbilityObj r) = ab_id r"
| "primary_key i (PokemonAbilityObj r) = int i"
| "primary_key i (PokemonMoveObj r) = int i"

text \<open>
  \<^verbatim>\<open>flush\<close> emits the UPDATE statements of the dirty objects in the order of their
  primary keys, then the INSERT statements of the new objects in the order in which they
  were added. A unit of work of the loader changes the objects of one table; the order
  in which a flush goes through several tables is not modelled.
\<close>

definition flush_statements :: "session \<Rightarrow> (store \<Rightarrow> store) list" where
  "flush_statements s =
     map (\<lambda>ie. update_row (fst ie) (snd ie))
       (sort_key (\<lambda>ie. primary_key (fst ie) (snd ie)) (dirty s)) @
     map insert_row (new s)"

definition flush :: "session \<Rightarrow> (py_error + unit) \<times> session" where
  "flush s =
     (case execute_all (flush_statements s) (txn s) of
        (Inl e, st) \<Rightarrow> (Inl e, s\<lparr>txn := st\<rparr>)
      | (Inr u, st) \<Rightarrow> (Inr (), s\<lparr>txn := st, dirty := [], new := []\<rparr>))"

definition commit :: "session \<Rightarrow> (py_error + unit) \<times> session" where
  "commit s =
     (case flush s of
        (Inl e, s') \<Rightarrow> (Inl e, s')
      | (Inr u, s') \<Rightarrow> (Inr (), s'\<lparr>committed := txn s'\<rparr>))"

definition rollback :: "session \<Rightarrow> session" where
  "rollback s = s\<lparr>txn := committed s, dirty := [], new := []\<rparr>"

section \<open>The database loader (src/loading/db_loader.py)\<close>

text \<open>
  The frame of every write method:
  \<^verbatim>\<open>try: ...; self.db.commit(); return ... except Exception as e: self.db.rollback(); raise\<close>.
  The objects that the methods return are not modelled; a method returns nothing or
  raises.
\<close>

definition try_except_rollback ::
  "(session \<Rightarrow> (py_error + unit) \<times> session) \<Rightarrow> session \<Rightarrow> (py_error + unit) \<times> session" where
  "try_except_rollback work s =
     (case work s of
        (Inl e, s') \<Rightarrow> (Inl e, rollback s')
      | (Inr v, s') \<Rightarrow> (Inr v, s'))"

text \<open>
  The statements of a write method before \<^verbatim>\<open>self.db.commit()\<close> are a function of their
  own: the loop of a method that takes a list, and the lookup with its two branches
  (\<open>_upsert\<close>) of a method that takes one entity.
\<close>

definition load_pokemon_upsert :: "pokemon_row \<Rightarrow> session \<Rightarrow> session" where
  "load_pokemon_upsert pokemon_data s =
     (case query_first (\<lambda>p. p_id p = p_id pokemon_data) (pokemon (txn s)) of
        Some (i, existing_pokemon) \<Rightarrow> mark_dirty i (PokemonObj pokemon_data) s
      | None \<Rightarrow> add (PokemonObj pokemon_data) s)"

definition load_pokemon :: "pokemon_row \<Rightarrow> session \<Rightarrow> (py_error + unit) \<times> session" where
  "load_pokemon pokemon_data =
     try_except_rollback (\<lambda>s. commit (load_pokemon_upsert pokemon_data s))"

fun load_pokemon_stats_loop :: "pokemon_stat_row list \<Rightarrow> session \<Rightarrow> session" where
  "load_pokemon_stats_loop [] s = s"
| "load_pokemon_stats_loop (stat_data # rest) s =
     load_pokemon_stats_loop rest
       (case query_first (\<lambda>r. ps_pokemon_id r = ps_pokemon_id stat_data \<and>
                              ps_stat_name r = ps_stat_name stat_data) (pokemon_stats (txn s)) of
          Some (i, existing_stat) \<Rightarrow>
            mark_dirty i (PokemonStatObj (existing_stat\<lparr>ps_base_value := ps_base_value stat_data\<rparr>)) s
        | None \<Rightarrow> add (PokemonStatObj stat_data) s)"

definition load_pokemon_stats :: "pokemon_stat_row list \<Rightarrow> session \<Rightarrow> (py_error + unit) \<times> session" where
  "load_pokemon_stats stats_data =
     try_except_rollback (\<lambda>s. commit (load_pokemon_stats_loop stats_data s))"

fun load_types_loop :: "type_row list \<Rightarrow> session \<Rightarrow> session" where
  "load_types_loop [] s = s"
| "load_types_loop (type_data # rest) s =
     load_types_loop rest
       (case query_first (\<lambda>t. ty_id t = ty_id type_data) (types (txn s)) of
          Some (i, existing_type) \<Rightarrow>
            mark_dirty i (TypeObj (existing_type\<lparr>ty_name := ty_name type_data\<rparr>)) s
        | None \<Rightarrow> add (TypeObj type_data) s)"

definition load_types :: "type_row list \<Rightarrow> session \<Rightarrow> (py_error + unit) \<times> session" where
  "load_types types_data =
     try_except_rollback (\<lambda>s. commit (load_types_loop types_data s))"

fun load_type_effectiveness_loop :: "type_effectiveness_row list \<Rightarrow> session \<Rightarrow> session" where
  "load_type_effectiveness_loop [] s = s"
| "load_type_effectiveness_loop (effectiveness # rest) s =
     load_type_effectiveness_loop rest
       (case query_first (\<lambda>r. te_attack_type_id r = te_attack_type_id effectiveness \<and>
                              te_defense_type_id r = te_defense_type_id effectiveness)
               (type_effectiveness (txn s)) of
          Some (i, existing_entry) \<Rightarrow>
            mark_dirty i (TypeEffectivenessObj
              (existing_entry\<lparr>te_effectiveness := te_effectiveness effectiveness\<rparr>)) s
        | None \<Rightarrow> add (TypeEffectivenessObj effectiveness) s)"

definition load_type_effectiveness ::
  "type_effectiveness_row list \<Rightarrow> session \<Rightarrow> (py_error + unit) \<times> session" where
  "load_type_effectiveness effectiveness_data =
     try_except_rollback (\<lambda>s. commit (load_type_effectiveness_loop effectiveness_data s))"

fun load_pokemon_types_loop :: "pokemon_type_row list \<Rightarrow> session \<Rightarrow> session" where
  "load_pokemon_types_loop [] s = s"
| "load_pokemon_types_loop (pokemon_type # rest) s =
     load_pokemon_types_loop rest
       (case query_first (\<lambda>r. pt_pokemon_id r = pt_pokemon_id pokemon_type \<and>
                              pt_type_id r = pt_type_id pokemon_type) (pokemon_types (txn s)) of
          Some (i, existing_association) \<Rightarrow>
            mark_dirty i (PokemonTypeObj (existing_association\<lparr>pt_slot := pt_slot pokemon_type\<rparr>)) s
        | None \<Rightarrow> add (PokemonTypeObj pokemon_type) s)"

definition load_pokemon_types :: "pokemon_type_row list \<Rightarrow> session \<Rightarrow> (py_error + unit) \<times> session" where
  "load_pokemon_types pokemon_types_data =
     try_except_rollback (\<lambda>s. commit (load_pokemon_types_loop pokemon_types_data s))"

text \<open>
  The dictionaries of the ability transformer have the keys \<^verbatim>\<open>id\<close>, \<^verbatim>\<open>name\<close>, \<^verbatim>\<open>effect\<close>,
  \<^verbatim>\<open>flavor_text\<close> and \<^verbatim>\<open>is_main_series\<close>. On an existing ability \<^verbatim>\<open>setattr\<close> changes the
  columns \<^verbatim>\<open>id\<close> and \<^verbatim>\<open>name\<close>; the other three keys are no columns. For a new ability
  the constructor \<^verbatim>\<open>Ability(**ability_data)\<close> rejects the keyword \<^verbatim>\<open>effect\<close> with a
  \<^verbatim>\<open>TypeError\<close>.
\<close>

record ability_data =
  ad_id :: int
  ad_name :: string
  ad_effect :: string
  ad_flavor_text :: string
  ad_is_main_series :: bool

fun load_all_ability_data_loop :: "ability_data list \<Rightarrow> session \<Rightarrow> (py_error + unit) \<times> session" where
  "load_all_ability_data_loop [] s = (Inr (), s)"
| "load_all_ability_data_loop (ability_data # rest) s =
     (case query_first (\<lambda>a. ab_id a = ad_id ability_data) (abilities (txn s)) of
        Some (i, existing_ability) \<Rightarrow>
          load_all_ability_data_loop rest
            (mark_dirty i (AbilityObj (existing_ability\<lparr>ab_id := ad_id ability_data,
                                                       ab_name := ad_name ability_data\<rparr>)) s)
      | None \<Rightarrow> (Inl TypeError, s))"

definition load_all_ability_data :: "ability_data list \<Rightarrow> session \<Rightarrow> (py_error + unit) \<times> session" where
  "load_all_ability_data transformed_data =
     try_except_rollback (\<lambda>s.
       case load_all_ability_data_loop transformed_data s of
         (Inl e, s') \<Rightarrow> (Inl e, s')
       | (Inr u, s') \<Rightarrow> commit s')"

definition load_pokemon_ability_upsert :: "pokemon_ability_row \<Rightarrow> session \<Rightarrow> session" where
  "load_pokemon_ability_upsert ability_data s =
     (case query_first (\<lambda>r. pa_pokemon_id r = pa_pokemon_id ability_data \<and>
                            pa_ability_id r = pa_ability_id ability_data)
             (pokemon_abilities (txn s)) of
        Some (i, existing_association) \<Rightarrow>
          mark_dirty i (PokemonAbilityObj
            (existing_association\<lparr>pa_is_hidden := pa_is_hidden ability_data,
                                   pa_slot := pa_slot ability_data\<rparr>)) s
      | None \<Rightarrow> add (PokemonAbilityObj ability_data) s)"

definition load_pokemon_ability :: "pokemon_ability_row \<Rightarrow> session \<Rightarrow> (py_error + unit) \<times> session" where
  "load_pokemon_ability ability_data =
     try_except_rollback (\<lambda>s. commit (load_pokemon_ability_upsert ability_data s))"

definition load_pokemon_move_upsert :: "pokemon_move_row \<Rightarrow> session \<Rightarrow> session" where
  "load_pokemon_move_upsert move_data s =
     (case query_first (\<lambda>r. pm_pokemon_id r = pm_pokemon_id move_data \<and>
                            pm_move_id r = pm_move_id move_data \<and>
                            pm_learn_method r = pm_learn_method move_data)
             (pokemon_moves (txn s)) of
        Some (i, existing_association) \<Rightarrow>
          mark_dirty i (PokemonMoveObj
            (existing_association\<lparr>pm_level_learned_at := pm_level_learned_at move_data\<rparr>)) s
      | None \<Rightarrow> add (PokemonMoveObj move_data) s)"

definition load_pokemon_move :: "pokemon_move_row \<Rightarrow> session \<Rightarrow> (py_error + unit) \<times> session" where
  "load_pokemon_move move_data =
     try_except_rollback (\<lambda>s. commit (load_pokemon_move_upsert move_data s))"

text \<open>The composite loads run the write methods in order and stop at the first exception;
  they have no transaction of their own.\<close>

fun each :: "('a \<Rightarrow> session \<Rightarrow> (py_error + unit) \<times> session) \<Rightarrow> 'a list \<Rightarrow>
    session \<Rightarrow> (py_error + unit) \<times> session" where
  "each m [] s = (Inr (), s)"
| "each m (x # xs) s =
     (case m x s of
        (Inl e, s') \<Rightarrow> (Inl e, s')
      | (Inr u, s') \<Rightarrow> each m xs s')"

definition and_then ::
  "(session \<Rightarrow> (py_error + unit) \<times> session) \<Rightarrow> (session \<Rightarrow> (py_error + unit) \<times> session) \<Rightarrow>
   session \<Rightarrow> (py_error + unit) \<times> session" where
  "and_then m1 m2 s =
     (case m1 s of
        (Inl e, s') \<Rightarrow> (Inl e, s')
      | (Inr u, s') \<Rightarrow> m2 s')"

record pokemon_batch =
  b_pokemon :: "pokemon_row list"
  b_stats :: "pokemon_stat_row list"
  b_types :: "pokemon_type_row list"
  b_abilities :: "pokemon_ability_row list"
  b_moves :: "pokemon_move_row list"

definition load_all_pokemon_data :: "pokemon_batch \<Rightarrow> session \<Rightarrow> (py_error + unit) \<times> session" where
  "load_all_pokemon_data transformed_data =
     and_then (each load_pokemon (b_pokemon transformed_data))
    (and_then (load_pokemon_stats (b_stats transformed_data))
    (and_then (load_pokemon_types (b_types transformed_data))
    (and_then (each load_pokemon_ability (b_abilities transformed_data))
              (each load_pokemon_move (b_moves transformed_data)))))"

record type_batch =
  b_type_rows :: "type_row list"
  b_effectiveness :: "type_effectiveness_row list"

definition load_all_type_data :: "type_batch \<Rightarrow> session \<Rightarrow> (py_error + unit) \<times> session" where
  "load_all_type_data transformed_data =
     and_then (load_types (b_type_rows transformed_data))
              (load_type_effectiveness (b_effectiveness transformed_data))"

subsection \<open>What a write method guarantees\<close>

text \<open>
  Statements that raise nothing, as a unit of work.
\<close>

definition returning :: "(session \<Rightarrow> session) \<Rightarrow> session \<Rightarrow> (py_error + unit) \<times> session" where
  "returning statements s = (Inr (), statements s)"

text \<open>
  A write method \<open>m\<close> whose unit of work is the statements \<open>work\<close> followed by the
  commit. When the statements raise an exception, or the flush of the commit does, the
  method raises that same exception and leaves the session rolled back to the store that
  was committed before the call: the store is unchanged, the transaction is that store
  again and nothing is pending. When neither raises, the method returns, and the store
  that the flush has produced from the statements' changes is the committed store, with
  nothing pending.
\<close>

definition atomic_write ::
  "(session \<Rightarrow> (py_error + unit) \<times> session) \<Rightarrow>
   (session \<Rightarrow> (py_error + unit) \<times> session) \<Rightarrow> bool" where
  "atomic_write work m \<longleftrightarrow>
     (\<forall>s. m s =
        (case work s of
           (Inl e, s1) \<Rightarrow> (Inl e, open_session (committed s))
         | (Inr u, s1) \<Rightarrow>
             (case flush s1 of
                (Inl e, s2) \<Rightarrow> (Inl e, open_session (committed s))
              | (Inr v, s2) \<Rightarrow> (Inr (), open_session (txn s2)))))"

subsection \<open>Concrete inputs\<close>

definition speed_stat :: pokemon_stat_row where
  "speed_stat = \<lparr>ps_pokemon_id = 25, ps_stat_name = ''speed'', ps_base_value = 90\<rparr>"

definition faster_speed_stat :: pokemon_stat_row where
  "faster_speed_stat = \<lparr>ps_pokemon_id = 25, ps_stat_name = ''speed'', ps_base_value = 95\<rparr>"

definition water_ground :: type_effectiveness_row where
  "water_ground = \<lparr>te_attack_type_id = 11, te_defense_type_id = 5, te_effectiveness = 2\<rparr>"

definition static_ability :: pokemon_ability_row where
  "static_ability = \<lparr>pa_pokemon_id = 25, pa_ability_id = 9, pa_is_hidden = False, pa_slot = 1\<rparr>"

definition overgrow :: ability_data where
  "overgrow = \<lparr>ad_id = 65, ad_name = ''overgrow'', ad_effect = ''e'', ad_flavor_text = ''f'',
               ad_is_main_series = True\<rparr>"

definition unknown_move :: pokemon_move_row where
  "unknown_move = \<lparr>pm_pokemon_id = 25, pm_move_id = 999, pm_level_learned_at = Some 0,
                    pm_learn_method = Some ''machine''\<rparr>"

definition fire_type :: type_row where
  "fire_type = \<lparr>ty_id = 10, ty_name = ''fire''\<rparr>"

text \<open>
  A batch that renames \<^verbatim>\<open>flying\<close> (3) and gives its name to the type 1. The UPDATE of the
  type 1 comes first in a flush, while the name is still taken.
\<close>

definition renamed_types :: "type_row list" where
  "renamed_types = [\<lparr>ty_id = 3, ty_name = ''bird''\<rparr>, \<lparr>ty_id = 1, ty_name = ''flying''\<rparr>]"

section \<open>Properties of the API client\<close>

lemma get_cache_path_collision:
  "get_cache_path c ''type/13'' = get_cache_path c ''type?13''"
  by (simp add: get_cache_path_def replace_char_def)

lemma get_from_cache_save:
  "get_cache_path c e' = get_cache_path c e \<Longrightarrow>
   get_from_cache c e' (save_to_cache c e d w) = d"
  by (simp add: get_from_cache_def save_to_cache_def update_conv')

lemma get_attempt_hit:
  "truthy (get_from_cache c e w) \<Longrightarrow> get_attempt c e True w = (Inr (get_from_cache c e w), w)"
  by (simp add: get_attempt_def)

lemma get_hit:
  "truthy (get_from_cache c e w) \<Longrightarrow> get c e True w = (Inr (get_from_cache c e w), w)"
  by (simp add: get_def get_attempt_hit numeral_eq_Suc)

lemma on_exception_files_frame:
  assumes "\<And>s. files (snd (f s)) = files s"
  shows "files (snd (on_exception n f w)) = files w"
proof (induction n arbitrary: w)
  case 0
  show ?case by (simp add: assms)
next
  case (Suc n)
  obtain r w' where fw: "f w = (r, w')" by (cases "f w")
  have "files w' = files w" using assms [of w] fw by simp
  then show ?case using fw Suc.IH [of w'] by (cases r) simp_all
qed

lemma requests_get_files:
  "files (snd (requests_get url w)) = files w"
  by (simp add: requests_get_def split: list.splits)

lemma requests_get_ignores_files:
  "requests_get url (w\<lparr>files := fs\<rparr>) =
   (fst (requests_get url w), (snd (requests_get url w))\<lparr>files := fs\<rparr>)"
  by (simp add: requests_get_def split: list.splits)

lemma get_attempt_no_cache_files:
  "files (snd (get_attempt c e False w)) = files w"
proof -
  obtain outcome w1 where rg: "requests_get (base_url c @ ''/'' @ dropWhile (\<lambda>ch. ch = CHR ''/'') e) w = (outcome, w1)"
    by (cases "requests_get (base_url c @ ''/'' @ dropWhile (\<lambda>ch. ch = CHR ''/'') e) w")
  have "files w1 = files w"
    using requests_get_files [of "base_url c @ ''/'' @ dropWhile (\<lambda>ch. ch = CHR ''/'') e" w] rg by simp
  then show ?thesis
    using rg by (simp add: get_attempt_def split: http_outcome.splits option.splits)
qed

lemma get_attempt_no_cache_ignores_files:
  "get_attempt c e False (w\<lparr>files := fs\<rparr>) =
   (fst (get_attempt c e False w), (snd (get_attempt c e False w))\<lparr>files := fs\<rparr>)"
proof -
  define url where "url = base_url c @ ''/'' @ dropWhile (\<lambda>ch. ch = CHR ''/'') e"
  obtain outcome w1 where rg: "requests_get url w = (outcome, w1)"
    by (cases "requests_get url w")
  have rg': "requests_get url (w\<lparr>files := fs\<rparr>) = (outcome, w1\<lparr>files := fs\<rparr>)"
    using rg by (simp add: requests_get_ignores_files)
  show ?thesis
    using rg rg' unfolding get_attempt_def url_def [symmetric]
    by (cases outcome) (auto split: option.split)
qed

lemma on_exception_ignores_files:
  assumes "\<And>s fs. f (s\<lparr>files := fs\<rparr>) = (fst (f s), (snd (f s))\<lparr>files := fs\<rparr>)"
  shows "on_exception n f (w\<lparr>files := fs\<rparr>) =
         (fst (on_exception n f w), (snd (on_exception n f w))\<lparr>files := fs\<rparr>)"
proof (induction n arbitrary: w)
  case 0
  show ?case by (simp add: assms)
next
  case (Suc n)
  obtain r w' where fw: "f w = (r, w')" by (cases "f w")
  have fw': "f (w\<lparr>files := fs\<rparr>) = (r, w'\<lparr>files := fs\<rparr>)"
    using assms [where s = w and fs = fs] fw by simp
  show ?case using fw fw' Suc.IH [of w'] by (cases r) simp_all
qed

text \<open>
  C9. With \<^verbatim>\<open>use_cache=False\<close> a call of \<^verbatim>\<open>get\<close> leaves every cache file as it was,
  whether the request succeeds or fails, and it reads none: its result and every other
  effect are the same whatever the cache directory holds.
\<close>

theorem get_without_cache_leaves_cache_alone:
  "files (snd (get c endpoint False w)) = files w \<and>
   get c endpoint False (w\<lparr>files := fs\<rparr>) =
     (fst (get c endpoint False w), (snd (get c endpoint False w))\<lparr>files := fs\<rparr>)"
proof
  show "files (snd (get c endpoint False w)) = files w"
    unfolding get_def by (rule on_exception_files_frame) (rule get_attempt_no_cache_files)
next
  show "get c endpoint False (w\<lparr>files := fs\<rparr>) =
     (fst (get c endpoint False w), (snd (get c endpoint False w))\<lparr>files := fs\<rparr>)"
    unfolding get_def
    by (rule on_exception_ignores_files) (rule get_attempt_no_cache_ignores_files)
qed

text \<open>
  C8. The cache path is not injective: the distinct endpoints \<^verbatim>\<open>type/13\<close> and \<^verbatim>\<open>type?13\<close>
  have the same cache file, and a (truthy) response cached for the first is what
  \<^verbatim>\<open>get\<close> returns for the second, without any request.
\<close>

theorem cache_key_collision:
  "''type/13'' \<noteq> ''type?13'' \<and>
   get_cache_path c ''type/13'' = get_cache_path c ''type?13'' \<and>
   \<not> inj (get_cache_path c) \<and>
   (truthy d \<longrightarrow>
      get c ''type?13'' True (save_to_cache c ''type/13'' d w)
        = (Inr d, save_to_cache c ''type/13'' d w))"
proof -
  have ne: "''type/13'' \<noteq> ''type?13''" by simp
  have eq: "get_cache_path c ''type/13'' = get_cache_path c ''type?13''"
    by (rule get_cache_path_collision)
  have ninj: "\<not> inj (get_cache_path c)"
    using ne eq by (auto simp: inj_def)
  have hit: "get c ''type?13'' True (save_to_cache c ''type/13'' d w)
        = (Inr d, save_to_cache c ''type/13'' d w)" if "truthy d"
  proof -
    have "get_from_cache c ''type?13'' (save_to_cache c ''type/13'' d w) = d"
      by (rule get_from_cache_save) (simp add: eq)
    then show ?thesis
      using that get_hit [of c "''type?13''" "save_to_cache c ''type/13'' d w"] by simp
  qed
  show ?thesis using ne eq ninj hit by blast
qed

theorem cache_key_collision_witness:
  "truthy (PDict [(''id'', PInt 13)]) \<and>
   get test_client ''type?13'' True
       (save_to_cache test_client ''type/13'' (PDict [(''id'', PInt 13)]) fresh_world)
     = (Inr (PDict [(''id'', PInt 13)]),
        save_to_cache test_client ''type/13'' (PDict [(''id'', PInt 13)]) fresh_world)"
  using cache_key_collision [of test_client "PDict [(''id'', PInt 13)]" fresh_world]
  by simp

text \<open>
  C4, as the code has it. When no cache file exists for the endpoint and the first
  request succeeds with a non-error status and a truthy JSON body, two calls of
  \<^verbatim>\<open>get\<close> with the cache enabled make exactly one request between them: the first call
  makes it and writes the cache file, the second returns the file's content and leaves
  the world as it is.
\<close>

theorem get_twice_one_request:
  assumes cold: "map_of (files w) (get_cache_path c endpoint) = None"
      and net: "network w = Response status (Some data) # rest"
      and ok: "\<not> (400 \<le> status \<and> status < 600)"
      and tr: "truthy data"
  shows "\<exists>w1 url. get c endpoint True w = (Inr data, w1) \<and>
           get c endpoint True w1 = (Inr data, w1) \<and>
           requested w1 = requested w @ [url] \<and>
           network w1 = rest \<and>
           map_of (files w1) (get_cache_path c endpoint) = Some data"
proof -
  define url where "url = base_url c @ ''/'' @ dropWhile (\<lambda>ch. ch = CHR ''/'') endpoint"
  define w1 where
    "w1 = save_to_cache c endpoint data (w\<lparr>network := rest, requested := requested w @ [url]\<rparr>)"
  have miss: "\<not> truthy (get_from_cache c endpoint w)"
    using cold by (simp add: get_from_cache_def)
  have rg: "requests_get url w = (Response status (Some data), w\<lparr>network := rest, requested := requested w @ [url]\<rparr>)"
    using net by (simp add: requests_get_def)
  have first_attempt: "get_attempt c endpoint True w = (Inr data, w1)"
    using miss rg ok unfolding get_attempt_def url_def [symmetric] w1_def by simp
  have first: "get c endpoint True w = (Inr data, w1)"
    using first_attempt by (simp add: get_def numeral_eq_Suc)
  have cached: "get_from_cache c endpoint w1 = data"
    unfolding w1_def by (rule get_from_cache_save) simp
  have second: "get c endpoint True w1 = (Inr data, w1)"
    using get_hit [of c endpoint w1] cached tr by simp
  have log: "requested w1 = requested w @ [url]" "network w1 = rest"
    by (simp_all add: w1_def save_to_cache_def)
  have stored: "map_of (files w1) (get_cache_path c endpoint) = Some data"
    by (simp add: w1_def save_to_cache_def update_conv')
  show ?thesis using first second log stored by blast
qed

theorem get_twice_one_request_witness:
  "map_of (files fresh_world) (get_cache_path test_client ''pokemon/2'') = None \<and>
   truthy (PDict [(''id'', PInt 2), (''name'', PStr ''ivysaur'')]) \<and>
   (\<exists>w1 url. get test_client ''pokemon/2'' True fresh_world
                 = (Inr (PDict [(''id'', PInt 2), (''name'', PStr ''ivysaur'')]), w1) \<and>
      get test_client ''pokemon/2'' True w1
                 = (Inr (PDict [(''id'', PInt 2), (''name'', PStr ''ivysaur'')]), w1) \<and>
      requested w1 = requested fresh_world @ [url] \<and>
      network w1 = [] \<and>
      map_of (files w1) (get_cache_path test_client ''pokemon/2'')
        = Some (PDict [(''id'', PInt 2), (''name'', PStr ''ivysaur'')]))"
  using get_twice_one_request [of fresh_world test_client "''pokemon/2''" 200
          "PDict [(''id'', PInt 2), (''name'', PStr ''ivysaur'')]" "[]"]
  by (simp add: fresh_world_def)

text \<open>
  C4 as stated fails: on an empty cache, when the first request cannot connect and the
  retry succeeds, two calls of \<^verbatim>\<open>get\<close> have made two requests, not one.
\<close>

theorem get_twice_counterexample:
  "length (requested (snd (get test_client ''pokemon/2'' True
             (snd (get test_client ''pokemon/2'' True flaky_world))))) \<noteq> 1"
  by (simp add: get_def numeral_eq_Suc get_attempt_def get_from_cache_def get_cache_path_def
        replace_char_def requests_get_def save_to_cache_def flaky_world_def test_client_def)

section \<open>Properties of the transformer\<close>

lemma ebind_Inr_iff:
  "ebind m f = Inr r \<longleftrightarrow> (\<exists>v. m = Inr v \<and> f v = Inr r)"
  by (cases m) (simp_all add: ebind_def)

lemma subscript_field:
  "subscript v k = Inr x \<Longrightarrow> field v k = x"
  by (simp add: field_def)

lemma version_group_loop_first_match:
  "version_group_loop raw_data move_id ds = Inr rows \<Longrightarrow>
   rows = (case find in_allow_list ds of
             None \<Rightarrow> []
           | Some d \<Rightarrow> [PDict [(''pokemon_id'', field raw_data ''id''),
                              (''move_id'', move_id),
                              (''level_learned_at'', field d ''level_learned_at''),
                              (''learn_method'', field (field d ''move_learn_method'') ''name'')]])"
proof (induction ds)
  case Nil
  then show ?case by simp
next
  case (Cons d ds)
  from Cons.prems obtain vg vg_name where
    vg: "subscript d ''version_group'' = Inr vg" and
    nm: "subscript vg ''name'' = Inr vg_name" and
    rest: "(if vg_name \<in> set allowed_version_groups
            then ebind (subscript raw_data ''id'') (\<lambda>pokemon_id.
                 ebind (subscript d ''level_learned_at'') (\<lambda>level.
                 ebind (subscript d ''move_learn_method'') (\<lambda>learn_method.
                 ebind (subscript learn_method ''name'') (\<lambda>learn_method_name.
                   Inr [PDict [(''pokemon_id'', pokemon_id),
                               (''move_id'', move_id),
                               (''level_learned_at'', level),
                               (''learn_method'', learn_method_name)]]))))
            else version_group_loop raw_data move_id ds) = Inr rows"
    by (auto simp: ebind_Inr_iff)
  have allow: "in_allow_list d \<longleftrightarrow> vg_name \<in> set allowed_version_groups"
    using vg nm by (simp add: in_allow_list_def subscript_field)
  show ?case
  proof (cases "vg_name \<in> set allowed_version_groups")
    case True
    with rest obtain pokemon_id level lm lm_name where
      "subscript raw_data ''id'' = Inr pokemon_id"
      "subscript d ''level_learned_at'' = Inr level"
      "subscript d ''move_learn_method'' = Inr lm"
      "subscript lm ''name'' = Inr lm_name"
      "rows = [PDict [(''pokemon_id'', pokemon_id),
                      (''move_id'', move_id),
                      (''level_learned_at'', level),
                      (''learn_method'', lm_name)]]"
      by (auto simp: ebind_Inr_iff)
    then show ?thesis using True allow by (simp add: subscript_field)
  next
    case False
    with rest have "version_group_loop raw_data move_id ds = Inr rows" by simp
    from Cons.IH [OF this] show ?thesis using False allow by simp
  qed
qed

lemma move_entry_rows_spec:
  assumes "move_entry_rows raw_data move_entry = Inr rows"
  shows "rows = spec_move_rows raw_data move_entry"
proof -
  from assms obtain mv url move_id details ds where
    mv: "subscript move_entry ''move'' = Inr mv" and
    url: "subscript mv ''url'' = Inr url" and
    mid: "extract_id_from_url url = Inr move_id" and
    det: "dict_get move_entry ''version_group_details'' (PList []) = Inr details" and
    it: "py_iter details = Inr ds" and
    loop: "version_group_loop raw_data move_id ds = Inr rows"
    unfolding move_entry_rows_def by (auto simp: ebind_Inr_iff)
  have ds: "details_of move_entry = ds"
    using det it by (simp add: details_of_def ebind_def)
  have mid': "(case extract_id_from_url (field (field move_entry ''move'') ''url'') of
                 Inl e \<Rightarrow> PNone | Inr n \<Rightarrow> n) = move_id"
    using mv url mid by (simp add: subscript_field)
  show ?thesis
    using version_group_loop_first_match [OF loop] ds mid'
    by (simp add: spec_move_rows_def spec_move_row_def split: option.splits)
qed

lemma for_each_concat:
  assumes "for_each body xs = Inr rows"
      and "\<And>x r. body x = Inr r \<Longrightarrow> r = g x"
  shows "rows = concat (map g xs)"
  using assms(1)
proof (induction xs arbitrary: rows)
  case Nil
  then show ?case by simp
next
  case (Cons x xs)
  from Cons.prems obtain r rest where
    r: "body x = Inr r" and rest: "for_each body xs = Inr rest" and rows: "rows = r @ rest"
    by (auto simp: ebind_Inr_iff)
  show ?case using assms(2) [OF r] Cons.IH [OF rest] rows by simp
qed

lemma transform_pokemon_moves:
  assumes "transform_pokemon raw_data = Inr out"
  shows "t_moves out = concat (map (spec_move_rows raw_data) (move_entries raw_data))"
proof -
  from assms obtain moves_v moves_items moves where
    mv: "dict_get raw_data ''moves'' (PList []) = Inr moves_v" and
    it: "py_iter moves_v = Inr moves_items" and
    loop: "for_each (move_entry_rows raw_data) moves_items = Inr moves" and
    out: "t_moves out = moves"
    unfolding transform_pokemon_def by (auto simp: ebind_Inr_iff Let_def)
  have "move_entries raw_data = moves_items"
    using mv it by (simp add: move_entries_def ebind_def)
  moreover have "moves = concat (map (spec_move_rows raw_data) moves_items)"
    using loop by (rule for_each_concat) (rule move_entry_rows_spec)
  ultimately show ?thesis using out by simp
qed

lemma sample_transform_value:
  "transform_pokemon sample_pokemon = Inr sample_transformed"
  by (simp add: transform_pokemon_def sample_pokemon_def sample_transformed_def ebind_def
        stat_rows_def type_rows_def ability_rows_def move_entry_rows_def
        thunderbolt_entry_def old_move_entry_def allowed_version_groups_def
        py_int_def rstrip_def is_space_def is_digit_def digit_value_def)

text \<open>
  C6. Whenever \<^verbatim>\<open>transform_pokemon\<close> returns, its move rows are, entry by entry and in
  order, the rows of the specification's rule: a move entry gives at most one row; it
  gives the row of the first version-group detail whose version group is in the
  allow-list, with that detail's level and learn method; it gives no row when no detail
  has an allowed version group.
\<close>

theorem transform_pokemon_move_filtering:
  assumes "transform_pokemon raw_data = Inr out"
  shows "t_moves out = concat (map (spec_move_rows raw_data) (move_entries raw_data)) \<and>
         (\<forall>e. length (spec_move_rows raw_data e) \<le> 1) \<and>
         (\<forall>e d. find in_allow_list (details_of e) = Some d \<longrightarrow>
                 spec_move_rows raw_data e = [spec_move_row raw_data e d]) \<and>
         (\<forall>e. (\<forall>d \<in> set (details_of e). \<not> in_allow_list d) \<longrightarrow>
                 spec_move_rows raw_data e = [])"
proof (intro conjI allI impI)
  show "t_moves out = concat (map (spec_move_rows raw_data) (move_entries raw_data))"
    using assms by (rule transform_pokemon_moves)
next
  fix e
  show "length (spec_move_rows raw_data e) \<le> 1"
    by (simp add: spec_move_rows_def split: option.splits)
next
  fix e d
  assume "find in_allow_list (details_of e) = Some d"
  then show "spec_move_rows raw_data e = [spec_move_row raw_data e d]"
    by (simp add: spec_move_rows_def)
next
  fix e
  assume "\<forall>d \<in> set (details_of e). \<not> in_allow_list d"
  then have "find in_allow_list (details_of e) = None"
    by (simp add: find_None_iff)
  then show "spec_move_rows raw_data e = []"
    by (simp add: spec_move_rows_def)
qed

theorem transform_pokemon_move_filtering_witness:
  "transform_pokemon sample_pokemon = Inr sample_transformed \<and>
   move_entries sample_pokemon = [thunderbolt_entry, old_move_entry] \<and>
   t_moves sample_transformed
     = spec_move_rows sample_pokemon thunderbolt_entry @ spec_move_rows sample_pokemon old_move_entry \<and>
   spec_move_rows sample_pokemon old_move_entry = [] \<and>
   t_moves sample_transformed
     = [PDict [(''pokemon_id'', PInt 25), (''move_id'', PInt 85),
               (''level_learned_at'', PInt 0), (''learn_method'', PStr ''machine'')]]"
proof -
  have entries: "move_entries sample_pokemon = [thunderbolt_entry, old_move_entry]"
    by (simp add: move_entries_def sample_pokemon_def ebind_def)
  have old_details: "\<forall>d \<in> set (details_of old_move_entry). \<not> in_allow_list d"
    by (simp add: details_of_def old_move_entry_def ebind_def in_allow_list_def field_def
          allowed_version_groups_def)
  show ?thesis
    using transform_pokemon_move_filtering [OF sample_transform_value] entries old_details
    by (simp add: sample_transform_value sample_transformed_def)
qed

section \<open>Properties of the type analyzer\<close>

lemma sample_matrix_labels:
  "matrix_labels sample_store =
     Inr ([''electric'', ''ground'', ''rock'', ''water''],
          [''electric'', ''flying'', ''ground'', ''rock'', ''water''])"
  by (simp add: matrix_labels_def get_effectiveness_matrix_def pivot_def fillna_def
        effectiveness_query_def sample_store_def ebind_def)

subsection \<open>The effectiveness matrix\<close>

lemma pivot_Inr_iff:
  "(\<exists>fr. pivot q = Inr fr) \<longleftrightarrow> distinct (map (\<lambda>r. (fst r, fst (snd r))) q)"
  by (simp add: pivot_def)

lemma pivot_labels:
  assumes "pivot q = Inr fr"
  shows "set (df_index fr) = fst ` set q"
    and "set (df_columns fr) = (\<lambda>r. fst (snd r)) ` set q"
    and "distinct (df_index fr)"
    and "distinct (df_columns fr)"
  using assms by (force simp: pivot_def split: if_splits)+

lemma pivot_cell_stored:
  assumes "pivot q = Inr fr" and "(a, d, e) \<in> set q"
  shows "df_cell fr a d = Some e"
proof -
  have dist: "distinct (map fst (map (\<lambda>r. ((fst r, fst (snd r)), snd (snd r))) q))"
    using assms(1) by (simp add: pivot_def comp_def split: if_splits)
  have mem: "((a, d), e) \<in> set (map (\<lambda>r. ((fst r, fst (snd r)), snd (snd r))) q)"
    using assms(2) by force
  have "map_of (map (\<lambda>r. ((fst r, fst (snd r)), snd (snd r))) q) (a, d) = Some e"
    using dist mem by (rule map_of_is_SomeI)
  then show ?thesis using assms(1) by (auto simp: pivot_def split: if_splits)
qed

lemma pivot_cell_missing:
  assumes "pivot q = Inr fr" and "\<forall>e. (a, d, e) \<notin> set q"
  shows "df_cell fr a d = None"
proof -
  have "(a, d) \<notin> fst ` set (map (\<lambda>r. ((fst r, fst (snd r)), snd (snd r))) q)"
    using assms(2) by force
  then have "map_of (map (\<lambda>r. ((fst r, fst (snd r)), snd (snd r))) q) (a, d) = None"
    by (simp add: map_of_eq_None_iff)
  then show ?thesis using assms(1) by (auto simp: pivot_def split: if_splits)
qed

lemma get_effectiveness_matrix_pivot:
  assumes "get_effectiveness_matrix st = Inr m"
  obtains fr where "pivot (effectiveness_query st) = Inr fr" and "m = fillna (Float 1) fr"
  using assms by (auto simp: get_effectiveness_matrix_def ebind_Inr_iff)

lemma sample_effectiveness_query:
  "effectiveness_query sample_store =
     [(''electric'', ''water'', Decimal 2), (''electric'', ''flying'', Decimal 2),
      (''electric'', ''ground'', Decimal 0), (''rock'', ''flying'', Decimal 2),
      (''ground'', ''electric'', Decimal 2), (''water'', ''rock'', Decimal 2)]"
  by (simp add: effectiveness_query_def sample_store_def)

lemma sample_matrix_exists:
  "\<exists>m. get_effectiveness_matrix sample_store = Inr m"
  by (simp add: get_effectiveness_matrix_def sample_effectiveness_query pivot_def ebind_def)

lemma matrix_entries:
  assumes "get_effectiveness_matrix st = Inr m"
  shows "distinct (map (\<lambda>r. (fst r, fst (snd r))) (effectiveness_query st)) \<and>
         set (df_index m) = fst ` set (effectiveness_query st) \<and>
         set (df_columns m) = (\<lambda>r. fst (snd r)) ` set (effectiveness_query st) \<and>
         (\<forall>a d. (\<exists>v. loc m a d = Inr v) \<longleftrightarrow>
                 a \<in> fst ` set (effectiveness_query st) \<and>
                 d \<in> (\<lambda>r. fst (snd r)) ` set (effectiveness_query st)) \<and>
         (\<forall>a d e. (a, d, e) \<in> set (effectiveness_query st) \<longrightarrow> loc m a d = Inr e) \<and>
         (\<forall>a d. a \<in> set (df_index m) \<and> d \<in> set (df_columns m) \<and>
                 (\<forall>e. (a, d, e) \<notin> set (effectiveness_query st)) \<longrightarrow>
                 loc m a d = Inr (Float 1))"
proof -
  from assms obtain fr where fr: "pivot (effectiveness_query st) = Inr fr" and m: "m = fillna (Float 1) fr"
    by (rule get_effectiveness_matrix_pivot)
  have idx: "set (df_index m) = fst ` set (effectiveness_query st)"
    using pivot_labels(1) [OF fr] m by (simp add: fillna_def)
  have cols: "set (df_columns m) = (\<lambda>r. fst (snd r)) ` set (effectiveness_query st)"
    using pivot_labels(2) [OF fr] m by (simp add: fillna_def)
  have dist: "distinct (map (\<lambda>r. (fst r, fst (snd r))) (effectiveness_query st))"
    using fr pivot_Inr_iff by blast
  have has: "\<forall>a d. (\<exists>v. loc m a d = Inr v) \<longleftrightarrow>
                 a \<in> fst ` set (effectiveness_query st) \<and>
                 d \<in> (\<lambda>r. fst (snd r)) ` set (effectiveness_query st)"
    using idx cols by (simp add: loc_def)
  have stored: "loc m a d = Inr e" if mem: "(a, d, e) \<in> set (effectiveness_query st)" for a d e
  proof -
    have "a \<in> set (df_index m)" using idx mem by force
    moreover have "d \<in> set (df_columns m)" using cols mem by force
    moreover have "df_cell m a d = e"
      using pivot_cell_stored [OF fr mem] m by (simp add: fillna_def)
    ultimately show ?thesis by (simp add: loc_def)
  qed
  have missing: "loc m a d = Inr (Float 1)"
    if "a \<in> set (df_index m) \<and> d \<in> set (df_columns m) \<and>
        (\<forall>e. (a, d, e) \<notin> set (effectiveness_query st))" for a d
  proof -
    have "df_cell fr a d = None" using pivot_cell_missing [OF fr] that by blast
    then have "df_cell m a d = Float 1" using m by (simp add: fillna_def)
    then show ?thesis using that by (simp add: loc_def)
  qed
  show ?thesis using dist idx cols has stored missing by blast
qed

text \<open>
  C2, as the code has it. When \<^verbatim>\<open>get_effectiveness_matrix\<close> returns, no pair of type names
  is stored twice; the rows of the matrix are the types that attack in some stored row
  and its columns the types that defend in some stored row, so the matrix has an entry
  exactly for the pairs of such a row and such a column; the entry of a stored pair is
  the stored value (a \<^verbatim>\<open>Decimal\<close>), and the entry of a pair of a row and a column with no
  stored row is the float 1.0.
\<close>

theorem effectiveness_matrix_entries:
  assumes "get_effectiveness_matrix st = Inr m"
  shows "distinct (map (\<lambda>r. (fst r, fst (snd r))) (effectiveness_query st)) \<and>
         set (df_index m) = fst ` set (effectiveness_query st) \<and>
         set (df_columns m) = (\<lambda>r. fst (snd r)) ` set (effectiveness_query st) \<and>
         (\<forall>a d. (\<exists>v. loc m a d = Inr v) \<longleftrightarrow>
                 a \<in> fst ` set (effectiveness_query st) \<and>
                 d \<in> (\<lambda>r. fst (snd r)) ` set (effectiveness_query st)) \<and>
         (\<forall>a d e. (a, d, e) \<in> set (effectiveness_query st) \<longrightarrow> loc m a d = Inr e) \<and>
         (\<forall>a d. a \<in> set (df_index m) \<and> d \<in> set (df_columns m) \<and>
                 (\<forall>e. (a, d, e) \<notin> set (effectiveness_query st)) \<longrightarrow>
                 loc m a d = Inr (Float 1))"
  using assms by (rule matrix_entries)

theorem effectiveness_matrix_entries_witness:
  "\<exists>m. get_effectiveness_matrix sample_store = Inr m \<and>
       loc m ''electric'' ''water'' = Inr (Decimal 2) \<and>
       loc m ''rock'' ''water'' = Inr (Float 1) \<and>
       loc m ''normal'' ''water'' = Inl KeyError"
proof -
  obtain m where m: "get_effectiveness_matrix sample_store = Inr m"
    using sample_matrix_exists by blast
  note facts = effectiveness_matrix_entries [OF m, unfolded sample_effectiveness_query]
  have stored: "loc m ''electric'' ''water'' = Inr (Decimal 2)"
    using facts by simp
  have idx: "set (df_index m) = {''electric'', ''rock'', ''ground'', ''water''}"
    and cols: "set (df_columns m) = {''water'', ''flying'', ''ground'', ''electric'', ''rock''}"
    using facts by auto
  have filled: "loc m ''rock'' ''water'' = Inr (Float 1)"
  proof -
    have "''rock'' \<in> set (df_index m) \<and> ''water'' \<in> set (df_columns m) \<and>
          (\<forall>e. (''rock'', ''water'', e) \<notin>
             set [(''electric'', ''water'', Decimal 2), (''electric'', ''flying'', Decimal 2),
                  (''electric'', ''ground'', Decimal 0), (''rock'', ''flying'', Decimal 2),
                  (''ground'', ''electric'', Decimal 2), (''water'', ''rock'', Decimal 2)])"
      using idx cols by simp
    then show ?thesis using facts by blast
  qed
  have absent: "loc m ''normal'' ''water'' = Inl KeyError"
    using idx by (simp add: loc_def)
  show ?thesis using m stored filled absent by blast
qed

text \<open>
  C2 as stated fails: \<^verbatim>\<open>normal\<close> is a type of the types table of the sample store, and
  the matrix has no row for it, so it has no entry for the pair of \<^verbatim>\<open>normal\<close> and
  \<^verbatim>\<open>water\<close>.
\<close>

theorem effectiveness_matrix_counterexample:
  "''normal'' \<in> set (map ty_name (types sample_store)) \<and>
   ''water'' \<in> set (map ty_name (types sample_store)) \<and>
   matrix_labels sample_store =
     Inr ([''electric'', ''ground'', ''rock'', ''water''],
          [''electric'', ''flying'', ''ground'', ''rock'', ''water'']) \<and>
   ''normal'' \<notin> set [''electric'', ''ground'', ''rock'', ''water'']"
  by (simp add: sample_matrix_labels) (simp add: sample_store_def)

subsection \<open>The weakness profile\<close>

text \<open>
  A cell of the matrix is a stored \<^verbatim>\<open>Decimal\<close> or the float 1.0, and the product of the loop
  raises on the first \<^verbatim>\<open>Decimal\<close> it reads. So a profile that is returned has read filled
  cells only, and reports 1.0 for every attacking type.
\<close>

lemma matrix_cell_kinds:
  assumes "get_effectiveness_matrix st = Inr m"
  shows "df_cell m a d = Float 1 \<or> (\<exists>v. df_cell m a d = Decimal v)"
proof -
  from assms obtain fr where fr: "pivot (effectiveness_query st) = Inr fr"
    and m: "m = fillna (Float 1) fr"
    by (rule get_effectiveness_matrix_pivot)
  show ?thesis
  proof (cases "df_cell fr a d")
    case None
    then show ?thesis using m by (simp add: fillna_def)
  next
    case (Some x)
    then have "map_of (map (\<lambda>r. ((fst r, fst (snd r)), snd (snd r))) (effectiveness_query st)) (a, d)
                 = Some x"
      using fr by (auto simp: pivot_def split: if_splits)
    then have "((a, d), x) \<in> set (map (\<lambda>r. ((fst r, fst (snd r)), snd (snd r))) (effectiveness_query st))"
      by (rule map_of_SomeD)
    then have "\<exists>v. x = Decimal v" by (auto simp: effectiveness_query_def)
    then show ?thesis using Some m by (auto simp: fillna_def)
  qed
qed

lemma combined_effectiveness_neutral:
  assumes "\<And>d. df_cell m a d = Float 1 \<or> (\<exists>v. df_cell m a d = Decimal v)"
      and "combined_effectiveness m a ts acc = Inr e"
  shows "e = acc"
  using assms(2)
proof (induction ts arbitrary: acc)
  case Nil
  then show ?case by simp
next
  case (Cons d ts)
  show ?case
  proof (cases "d \<in> set (df_columns m)")
    case False
    then show ?thesis using Cons by simp
  next
    case True
    show ?thesis
    proof (cases "a \<in> set (df_index m)")
      case False
      then show ?thesis using Cons.prems True by (simp add: loc_def ebind_def)
    next
      case idx: True
      from assms(1) [of d] show ?thesis
      proof
        assume "df_cell m a d = Float 1"
        then show ?thesis using Cons True idx by (simp add: loc_def ebind_def)
      next
        assume "\<exists>v. df_cell m a d = Decimal v"
        then show ?thesis using Cons.prems True idx by (auto simp: loc_def ebind_def)
      qed
    qed
  qed
qed

lemma effectiveness_against_neutral:
  assumes "\<And>a d. df_cell m a d = Float 1 \<or> (\<exists>v. df_cell m a d = Decimal v)"
      and "for_each (\<lambda>attack_type.
             ebind (combined_effectiveness m attack_type ts 1) (\<lambda>e. Inr [(attack_type, e)])) idx
           = Inr rows"
  shows "\<forall>r \<in> set rows. snd r = 1"
  using assms(2)
proof (induction idx arbitrary: rows)
  case Nil
  then show ?case by simp
next
  case (Cons a idx)
  from Cons.prems obtain e rest where
    e: "combined_effectiveness m a ts 1 = Inr e"
    and rest: "for_each (\<lambda>attack_type.
             ebind (combined_effectiveness m attack_type ts 1) (\<lambda>e. Inr [(attack_type, e)])) idx
           = Inr rest"
    and rows: "rows = (a, e) # rest"
    by (auto simp: ebind_Inr_iff)
  have "e = 1" using assms(1) e by (rule combined_effectiveness_neutral)
  then show ?case using Cons.IH [OF rest] rows by simp
qed

lemma weakness_profile_neutral:
  assumes "get_pokemon_weakness_profile st pid = Inr df"
  shows "\<forall>r \<in> set df. snd r = 1"
proof (cases "pokemon_types_query st pid = []")
  case True
  then show ?thesis using assms by (simp add: get_pokemon_weakness_profile_def)
next
  case False
  from assms False obtain m rows where
    m: "get_effectiveness_matrix st = Inr m"
    and rows: "for_each (\<lambda>attack_type.
             ebind (combined_effectiveness m attack_type (pokemon_types_query st pid) 1)
               (\<lambda>e. Inr [(attack_type, e)])) (df_index m) = Inr rows"
    and df: "df = sort_values_desc rows"
    by (auto simp: get_pokemon_weakness_profile_def ebind_Inr_iff Let_def split: if_splits)
  have "\<forall>r \<in> set rows. snd r = 1"
    using matrix_cell_kinds [OF m] rows by (rule effectiveness_against_neutral)
  then show ?thesis using df by (simp add: sort_values_desc_def)
qed

lemma sample_pokemon_types:
  "pokemon_types_query sample_store 130 = [''water'', ''flying'']"
  by (simp add: pokemon_types_query_def sample_store_def)

lemma sample_cell:
  "ebind (get_effectiveness_matrix sample_store) (\<lambda>matrix. loc matrix ''electric'' ''water'')
     = Inr (Decimal 2)"
  by (simp add: get_effectiveness_matrix_def pivot_def fillna_def loc_def
        sample_effectiveness_query ebind_def)

lemma sample_profile:
  "get_pokemon_weakness_profile sample_store 130 = Inl TypeError"
  by (simp add: get_pokemon_weakness_profile_def sample_pokemon_types
        get_effectiveness_matrix_def pivot_def fillna_def loc_def
        sample_effectiveness_query ebind_def)

text \<open>
  C3. Gyarados (130) has the types \<^verbatim>\<open>water\<close> and \<^verbatim>\<open>flying\<close>, and the sample store holds the
  effectiveness 2 of \<^verbatim>\<open>electric\<close> against each of them. The entry of the matrix for
  \<^verbatim>\<open>electric\<close> against \<^verbatim>\<open>water\<close> is a \<^verbatim>\<open>Decimal\<close>, the product of the float 1.0 with it
  is a \<^verbatim>\<open>TypeError\<close>, and \<^verbatim>\<open>get_pokemon_weakness_profile\<close> raises it instead of reporting
  the product 4 of the two entries.
\<close>

theorem weakness_profile_type_error:
  "pokemon_types_query sample_store 130 = [''water'', ''flying''] \<and>
   ebind (get_effectiveness_matrix sample_store) (\<lambda>matrix. loc matrix ''electric'' ''water'')
     = Inr (Decimal 2) \<and>
   float_imul 1 (Decimal 2) = Inl TypeError \<and>
   get_pokemon_weakness_profile sample_store 130 = Inl TypeError"
  using sample_pokemon_types sample_cell sample_profile by simp

subsection \<open>Counter recommendation\<close>

text \<open>No type of a returned profile exceeds 1.0, so no counter is ever returned.\<close>

lemma recommend_counter_types_nothing:
  assumes "recommend_counter_types st pid top_n = Inr counters"
  shows "counters = []"
proof -
  from assms obtain df where df: "get_pokemon_weakness_profile st pid = Inr df"
    by (auto simp: recommend_counter_types_def ebind_Inr_iff)
  have "filter (\<lambda>r. snd r > 1) df = []"
    using weakness_profile_neutral [OF df] by (auto simp: filter_empty_conv)
  then show ?thesis
    using assms df
    by (auto simp: recommend_counter_types_def ebind_Inr_iff sort_values_desc_def head_def Let_def
          split: if_splits)
qed

text \<open>
  C5. \<^verbatim>\<open>recommend_counter_types\<close> begins with the weakness profile, so for Gyarados it
  raises the same \<^verbatim>\<open>TypeError\<close> and recommends nothing, for a positive and for a negative
  \<open>top_n\<close>, where the types that exceed 1.0 are \<^verbatim>\<open>electric\<close> and \<^verbatim>\<open>rock\<close>.
\<close>

theorem recommend_counter_types_type_error:
  "recommend_counter_types sample_store 130 5 = Inl TypeError \<and>
   recommend_counter_types sample_store 130 (- 1) = Inl TypeError"
  by (simp add: recommend_counter_types_def sample_profile ebind_def)

subsection \<open>A Pokemon without types\<close>

lemma concat_filtered_empty:
  "\<forall>x \<in> set xs. \<not> P x \<Longrightarrow> concat (map (\<lambda>x. if P x then f x else []) xs) = []"
  by (induction xs) auto

lemma pokemon_types_query_empty:
  assumes "\<forall>pt \<in> set (pokemon_types st). pt_pokemon_id pt \<noteq> pid"
  shows "pokemon_types_query st pid = []"
proof -
  have "concat (map (\<lambda>pt. if pt_pokemon_id pt = pid
                          then concat (map (\<lambda>t. if pt_type_id pt = ty_id t
                                                then [(pt_slot pt, ty_name t)] else [])
                                         (types st))
                          else [])
                  (pokemon_types st)) = []"
    (is "?rows = []")
    using assms by (rule concat_filtered_empty)
  then have "map snd (sort_key fst ?rows) = []" by (simp only: sort_key_simps list.map)
  then show ?thesis by (simp only: pokemon_types_query_def)
qed

text \<open>
  C10. For a Pokemon identifier with no row in \<^verbatim>\<open>pokemon_types\<close>,
  \<^verbatim>\<open>get_pokemon_weakness_profile\<close> returns the empty frame and raises nothing, and so does
  \<^verbatim>\<open>recommend_counter_types\<close> for every \<open>top_n\<close>.
\<close>

theorem typeless_pokemon_empty_result:
  assumes "\<forall>pt \<in> set (pokemon_types st). pt_pokemon_id pt \<noteq> pid"
  shows "get_pokemon_weakness_profile st pid = Inr [] \<and>
         (\<forall>top_n. recommend_counter_types st pid top_n = Inr [])"
proof -
  have "pokemon_types_query st pid = []"
    using assms by (rule pokemon_types_query_empty)
  then have prof: "get_pokemon_weakness_profile st pid = Inr []"
    by (simp add: get_pokemon_weakness_profile_def)
  then have "\<forall>top_n. recommend_counter_types st pid top_n = Inr []"
    by (simp add: recommend_counter_types_def ebind_def)
  with prof show ?thesis by simp
qed

theorem typeless_pokemon_empty_result_witness:
  "132 \<notin> set (map pt_pokemon_id (pokemon_types sample_store)) \<and>
   get_pokemon_weakness_profile sample_store 132 = Inr [] \<and>
   recommend_counter_types sample_store 132 5 = Inr [] \<and>
   recommend_counter_types sample_store 132 (- 3) = Inr []"
proof -
  have no_types: "\<forall>pt \<in> set (pokemon_types sample_store). pt_pokemon_id pt \<noteq> 132"
    by (simp add: sample_store_def)
  have "132 \<notin> set (map pt_pokemon_id (pokemon_types sample_store))"
    by (simp add: sample_store_def)
  then show ?thesis
    using typeless_pokemon_empty_result [OF no_types] by blast
qed

section \<open>Properties of the loader\<close>

lemma flush_cases:
  obtains (raises) e st where "flush s = (Inl e, s\<lparr>txn := st\<rparr>)"
  | (returns) st where "flush s = (Inr (), s\<lparr>txn := st, dirty := [], new := []\<rparr>)"
proof (cases "execute_all (flush_statements s) (txn s)")
  case (Pair r st)
  show ?thesis
  proof (cases r)
    case (Inl e)
    then have "flush s = (Inl e, s\<lparr>txn := st\<rparr>)" using Pair by (simp add: flush_def)
    then show ?thesis by (rule raises)
  next
    case (Inr u)
    then have "flush s = (Inr (), s\<lparr>txn := st, dirty := [], new := []\<rparr>)"
      using Pair by (simp add: flush_def)
    then show ?thesis by (rule returns)
  qed
qed

lemma rollback_open_session:
  "committed s' = committed s \<Longrightarrow> rollback s' = open_session (committed s)"
  by (simp add: rollback_def open_session_def)

lemma mark_dirty_committed [simp]: "committed (mark_dirty i e s) = committed s"
  by (simp add: mark_dirty_def)

lemma add_committed [simp]: "committed (add e s) = committed s"
  by (simp add: add_def)

text \<open>The frame \<^verbatim>\<open>try: statements; commit() except: rollback(); raise\<close> around statements
  that leave the committed store alone.\<close>

lemma atomic_write_try_commit:
  assumes "\<And>s. committed (snd (work s)) = committed s"
  shows "atomic_write work (try_except_rollback (\<lambda>s.
           case work s of
             (Inl e, s') \<Rightarrow> (Inl e, s')
           | (Inr u, s') \<Rightarrow> commit s'))"
  unfolding atomic_write_def
proof
  fix s
  obtain r1 s1 where w: "work s = (r1, s1)" by (cases "work s")
  have s1: "committed s1 = committed s" using assms [of s] w by simp
  show "try_except_rollback (\<lambda>s. case work s of (Inl e, s') \<Rightarrow> (Inl e, s')
                                   | (Inr u, s') \<Rightarrow> commit s') s =
        (case work s of
           (Inl e, s1) \<Rightarrow> (Inl e, open_session (committed s))
         | (Inr u, s1) \<Rightarrow>
             (case flush s1 of
                (Inl e, s2) \<Rightarrow> (Inl e, open_session (committed s))
              | (Inr v, s2) \<Rightarrow> (Inr (), open_session (txn s2))))"
  proof (cases r1)
    case (Inl e)
    have "rollback s1 = open_session (committed s)" using s1 by (rule rollback_open_session)
    then show ?thesis using w Inl by (simp add: try_except_rollback_def)
  next
    case (Inr u)
    show ?thesis
    proof (cases s1 rule: flush_cases)
      case (raises e st)
      have "committed (s1\<lparr>txn := st\<rparr>) = committed s" using s1 by simp
      then have "rollback (s1\<lparr>txn := st\<rparr>) = open_session (committed s)"
        by (rule rollback_open_session)
      then show ?thesis
        using w Inr raises by (simp add: try_except_rollback_def commit_def)
    next
      case (returns st)
      then show ?thesis
        using w Inr by (simp add: try_except_rollback_def commit_def open_session_def)
    qed
  qed
qed

lemma atomic_write_returning:
  assumes "\<And>s. committed (statements s) = committed s"
  shows "atomic_write (returning statements) (try_except_rollback (\<lambda>s. commit (statements s)))"
proof -
  have "atomic_write (returning statements) (try_except_rollback (\<lambda>s.
           case returning statements s of
             (Inl e, s') \<Rightarrow> (Inl e, s')
           | (Inr u, s') \<Rightarrow> commit s'))"
    by (rule atomic_write_try_commit) (simp add: returning_def assms)
  then show ?thesis by (simp add: returning_def)
qed

lemma load_pokemon_stats_loop_committed:
  "committed (load_pokemon_stats_loop xs s) = committed s"
  by (induction xs arbitrary: s) (auto split: option.splits)

lemma load_types_loop_committed:
  "committed (load_types_loop xs s) = committed s"
  by (induction xs arbitrary: s) (auto split: option.splits)

lemma load_type_effectiveness_loop_committed:
  "committed (load_type_effectiveness_loop xs s) = committed s"
  by (induction xs arbitrary: s) (auto split: option.splits)

lemma load_pokemon_types_loop_committed:
  "committed (load_pokemon_types_loop xs s) = committed s"
  by (induction xs arbitrary: s) (auto split: option.splits)

lemma load_all_ability_data_loop_committed:
  "committed (snd (load_all_ability_data_loop xs s)) = committed s"
  by (induction xs arbitrary: s) (auto split: option.splits)

lemma load_pokemon_atomic:
  "atomic_write (returning (load_pokemon_upsert pokemon_data)) (load_pokemon pokemon_data)"
  unfolding load_pokemon_def
  by (rule atomic_write_returning) (auto simp: load_pokemon_upsert_def split: option.splits)

lemma load_pokemon_stats_atomic:
  "atomic_write (returning (load_pokemon_stats_loop stats_data)) (load_pokemon_stats stats_data)"
  unfolding load_pokemon_stats_def
  by (rule atomic_write_returning) (rule load_pokemon_stats_loop_committed)

lemma load_types_atomic:
  "atomic_write (returning (load_types_loop types_data)) (load_types types_data)"
  unfolding load_types_def
  by (rule atomic_write_returning) (rule load_types_loop_committed)

lemma load_type_effectiveness_atomic:
  "atomic_write (returning (load_type_effectiveness_loop effectiveness_data))
     (load_type_effectiveness effectiveness_data)"
  unfolding load_type_effectiveness_def
  by (rule atomic_write_returning) (rule load_type_effectiveness_loop_committed)

lemma load_pokemon_types_atomic:
  "atomic_write (returning (load_pokemon_types_loop pokemon_types_data))
     (load_pokemon_types pokemon_types_data)"
  unfolding load_pokemon_types_def
  by (rule atomic_write_returning) (rule load_pokemon_types_loop_committed)

lemma load_all_ability_data_atomic:
  "atomic_write (load_all_ability_data_loop transformed_data)
     (load_all_ability_data transformed_data)"
  unfolding load_all_ability_data_def
  by (rule atomic_write_try_commit) (rule load_all_ability_data_loop_committed)

lemma load_pokemon_ability_atomic:
  "atomic_write (returning (load_pokemon_ability_upsert ability_data))
     (load_pokemon_ability ability_data)"
  unfolding load_pokemon_ability_def
  by (rule atomic_write_returning)
     (auto simp: load_pokemon_ability_upsert_def split: option.splits)

lemma load_pokemon_move_atomic:
  "atomic_write (returning (load_pokemon_move_upsert move_data)) (load_pokemon_move move_data)"
  unfolding load_pokemon_move_def
  by (rule atomic_write_returning)
     (auto simp: load_pokemon_move_upsert_def split: option.splits)

subsection \<open>Atomicity of the write methods\<close>

text \<open>
  C7. Each of the eight write methods of the loader runs its statements and the commit
  as one unit of work: an exception of the statements or of the flush is raised to the
  caller as it is, with the session rolled back to the store committed before the call;
  otherwise the method returns and the flushed changes are committed.
\<close>

theorem write_methods_atomic:
  "atomic_write (returning (load_pokemon_upsert pokemon_data)) (load_pokemon pokemon_data) \<and>
   atomic_write (returning (load_pokemon_stats_loop stats_data)) (load_pokemon_stats stats_data) \<and>
   atomic_write (returning (load_types_loop types_data)) (load_types types_data) \<and>
   atomic_write (returning (load_type_effectiveness_loop effectiveness_data))
     (load_type_effectiveness effectiveness_data) \<and>
   atomic_write (returning (load_pokemon_types_loop pokemon_types_data))
     (load_pokemon_types pokemon_types_data) \<and>
   atomic_write (load_all_ability_data_loop abilities_data)
     (load_all_ability_data abilities_data) \<and>
   atomic_write (returning (load_pokemon_ability_upsert ability_data))
     (load_pokemon_ability ability_data) \<and>
   atomic_write (returning (load_pokemon_move_upsert move_data)) (load_pokemon_move move_data)"
  by (intro conjI load_pokemon_atomic load_pokemon_stats_atomic load_types_atomic
        load_type_effectiveness_atomic load_pokemon_types_atomic load_all_ability_data_atomic
        load_pokemon_ability_atomic load_pokemon_move_atomic)

theorem write_methods_atomic_witness:
  "load_types [fire_type, fire_type] (open_session sample_store) =
     (Inl IntegrityError, open_session sample_store) \<and>
   load_types renamed_types (open_session sample_store) =
     (Inl IntegrityError, open_session sample_store) \<and>
   load_types [fire_type] (open_session sample_store) =
     (Inr (), open_session (sample_store\<lparr>types := types sample_store @ [fire_type]\<rparr>)) \<and>
   load_all_ability_data [overgrow] (open_session sample_store) =
     (Inl TypeError, open_session sample_store) \<and>
   load_pokemon_ability static_ability (open_session sample_store) =
     (Inr (), open_session (sample_store\<lparr>pokemon_abilities := [static_ability]\<rparr>)) \<and>
   load_pokemon_move unknown_move (open_session sample_store) =
     (Inl IntegrityError, open_session sample_store) \<and>
   load_pokemon_stats [speed_stat] (open_session sample_store) =
     (Inr (), open_session
        (sample_store\<lparr>pokemon_stats := pokemon_stats sample_store @ [speed_stat]\<rparr>))"
proof -
  note atomic = write_methods_atomic
    [where types_data = "[fire_type, fire_type]" and abilities_data = "[overgrow]"
       and ability_data = static_ability and move_data = unknown_move
       and stats_data = "[speed_stat]", unfolded atomic_write_def]
  have repeated: "load_types [fire_type, fire_type] (open_session sample_store) =
     (Inl IntegrityError, open_session sample_store)"
    using atomic
    by (simp add: returning_def flush_def flush_statements_def open_session_def query_first_def
          add_def mark_dirty_def constraints_ok_def sample_store_def fire_type_def)
  have new_ability: "load_all_ability_data [overgrow] (open_session sample_store) =
     (Inl TypeError, open_session sample_store)"
    using atomic
    by (simp add: open_session_def query_first_def sample_store_def overgrow_def)
  have association: "load_pokemon_ability static_ability (open_session sample_store) =
     (Inr (), open_session (sample_store\<lparr>pokemon_abilities := [static_ability]\<rparr>))"
    using atomic
    by (simp add: returning_def load_pokemon_ability_upsert_def flush_def flush_statements_def
          open_session_def query_first_def add_def mark_dirty_def constraints_ok_def
          sample_store_def static_ability_def)
  have foreign_key: "load_pokemon_move unknown_move (open_session sample_store) =
     (Inl IntegrityError, open_session sample_store)"
    using atomic
    by (simp add: returning_def load_pokemon_move_upsert_def flush_def flush_statements_def
          open_session_def query_first_def add_def mark_dirty_def constraints_ok_def
          sample_store_def unknown_move_def)
  have new_stat: "load_pokemon_stats [speed_stat] (open_session sample_store) =
     (Inr (), open_session
        (sample_store\<lparr>pokemon_stats := pokemon_stats sample_store @ [speed_stat]\<rparr>))"
    using atomic
    by (simp add: returning_def flush_def flush_statements_def
          open_session_def query_first_def add_def mark_dirty_def constraints_ok_def
          sample_store_def speed_stat_def)
  note renamed = write_methods_atomic [where types_data = renamed_types, unfolded atomic_write_def]
  have renaming: "load_types renamed_types (open_session sample_store) =
     (Inl IntegrityError, open_session sample_store)"
    using renamed
    by (simp add: returning_def flush_def flush_statements_def open_session_def query_first_def
          add_def mark_dirty_def constraints_ok_def sample_store_def renamed_types_def)
  note single = write_methods_atomic [where types_data = "[fire_type]", unfolded atomic_write_def]
  have "load_types [fire_type] (open_session sample_store) =
     (Inr (), open_session (sample_store\<lparr>types := types sample_store @ [fire_type]\<rparr>))"
    using single
    by (simp add: returning_def flush_def flush_statements_def open_session_def query_first_def
          add_def mark_dirty_def constraints_ok_def sample_store_def fire_type_def)
  then show ?thesis
    using repeated renaming new_ability association foreign_key new_stat by simp
qed

subsection \<open>Loading the same entity twice\<close>

lemma load_pokemon_stats_repeated_value:
  "load_pokemon_stats [speed_stat, speed_stat] (open_session sample_store) =
     (Inr (), open_session
        (sample_store\<lparr>pokemon_stats := pokemon_stats sample_store @ [speed_stat, speed_stat]\<rparr>))"
  by (simp add: load_pokemon_stats_def try_except_rollback_def commit_def flush_def
        flush_statements_def open_session_def query_first_def add_def mark_dirty_def
        constraints_ok_def sample_store_def speed_stat_def)

lemma load_pokemon_stats_two_calls_value:
  "and_then (load_pokemon_stats [speed_stat]) (load_pokemon_stats [faster_speed_stat])
     (open_session sample_store) =
     (Inr (), open_session
        (sample_store\<lparr>pokemon_stats := pokemon_stats sample_store @ [faster_speed_stat]\<rparr>))"
  by (simp add: and_then_def load_pokemon_stats_def try_except_rollback_def commit_def flush_def
        flush_statements_def open_session_def query_first_def add_def mark_dirty_def
        constraints_ok_def sample_store_def speed_stat_def faster_speed_stat_def)

lemma load_pokemon_ability_twice_value:
  "each load_pokemon_ability [static_ability, static_ability] (open_session sample_store) =
     (Inr (), open_session (sample_store\<lparr>pokemon_abilities := [static_ability]\<rparr>))"
  by (simp add: load_pokemon_ability_def load_pokemon_ability_upsert_def
        try_except_rollback_def commit_def flush_def
        flush_statements_def open_session_def query_first_def add_def mark_dirty_def
        constraints_ok_def sample_store_def static_ability_def)

lemma load_type_effectiveness_repeated_value:
  "load_type_effectiveness [water_ground, water_ground] (open_session sample_store) =
     (Inr (), open_session
        (sample_store\<lparr>type_effectiveness :=
           type_effectiveness sample_store @ [water_ground, water_ground]\<rparr>))"
  by (simp add: load_type_effectiveness_def try_except_rollback_def commit_def flush_def
        flush_statements_def open_session_def query_first_def add_def mark_dirty_def
        constraints_ok_def sample_store_def water_ground_def)

lemma repeated_pair_matrix_value:
  "get_effectiveness_matrix
     (sample_store\<lparr>type_effectiveness :=
        type_effectiveness sample_store @ [water_ground, water_ground]\<rparr>) = Inl ValueError"
  by (simp add: get_effectiveness_matrix_def effectiveness_query_def pivot_def ebind_def
        sample_store_def water_ground_def)

text \<open>
  C1. The sample store has no \<^verbatim>\<open>speed\<close> stat for Pokemon 25. \<^verbatim>\<open>load_pokemon_stats\<close> with a
  batch that holds this stat twice finds no row at either lookup, because the second
  lookup does not see the object that the first one added; both objects are inserted,
  and the natural key has two rows. Loading the stat in two calls leaves one row with
  the values of the second call, and so does \<^verbatim>\<open>_load_pokemon_ability\<close>, which commits
  after every entity, when it is called twice with the same association. The loop of
  \<^verbatim>\<open>load_type_effectiveness\<close> duplicates a repeated pair of types in the same way, and with
  the two rows \<^verbatim>\<open>get_effectiveness_matrix\<close> raises the \<^verbatim>\<open>ValueError\<close> of \<^verbatim>\<open>pivot\<close>.
\<close>

theorem load_repeated_entity_two_rows:
  "load_pokemon_stats [speed_stat, speed_stat] (open_session sample_store) =
     (Inr (), open_session
        (sample_store\<lparr>pokemon_stats := pokemon_stats sample_store @ [speed_stat, speed_stat]\<rparr>)) \<and>
   and_then (load_pokemon_stats [speed_stat]) (load_pokemon_stats [faster_speed_stat])
     (open_session sample_store) =
     (Inr (), open_session
        (sample_store\<lparr>pokemon_stats := pokemon_stats sample_store @ [faster_speed_stat]\<rparr>)) \<and>
   each load_pokemon_ability [static_ability, static_ability] (open_session sample_store) =
     (Inr (), open_session (sample_store\<lparr>pokemon_abilities := [static_ability]\<rparr>)) \<and>
   load_type_effectiveness [water_ground, water_ground] (open_session sample_store) =
     (Inr (), open_session
        (sample_store\<lparr>type_effectiveness :=
           type_effectiveness sample_store @ [water_ground, water_ground]\<rparr>)) \<and>
   get_effectiveness_matrix
     (sample_store\<lparr>type_effectiveness :=
        type_effectiveness sample_store @ [water_ground, water_ground]\<rparr>) = Inl ValueError"
  using load_pokemon_stats_repeated_value load_pokemon_stats_two_calls_value
    load_pokemon_ability_twice_value load_type_effectiveness_repeated_value
    repeated_pair_matrix_value
  by simp

end
